theory Spec2Isabelle
  imports Main "HOL-Library.Word"
begin

section \<open>Swapchain.cpp of Flounder.Core: the data model\<close>

text \<open>
  The swapchain component talks to the Vulkan and GLFW libraries. Their types and
  enumerators come from the library headers; the values used here are the ones of
  \<^verbatim>\<open>vulkan_core.h\<close>. Enumerations are C enums, hence integers; handles are opaque
  and are modelled as natural numbers, with \<^verbatim>\<open>VK_NULL_HANDLE\<close> being 0.
\<close>

type_synonym uint32_t = "32 word"
type_synonym c_int = "32 word"  \<comment> \<open>a C \<^verbatim>\<open>int\<close>, two's complement, read with \<open>sint\<close>\<close>

type_synonym VkResult = int
type_synonym VkFormat = int
type_synonym VkColorSpaceKHR = int
type_synonym VkPresentModeKHR = int

type_synonym VkDevice = nat
type_synonym VkPhysicalDevice = nat
type_synonym VkSurfaceKHR = nat
type_synonym VkSwapchainKHR = nat
type_synonym VkImage = nat
type_synonym VkImageView = nat
type_synonym VkFramebuffer = nat
type_synonym VkRenderPass = nat
type_synonym GLFWwindow = nat

definition VK_NULL_HANDLE :: nat where
  "VK_NULL_HANDLE = 0"

definition VK_SUCCESS :: VkResult where
  "VK_SUCCESS = 0"

definition VK_FORMAT_UNDEFINED :: VkFormat where
  "VK_FORMAT_UNDEFINED = 0"

definition VK_FORMAT_B8G8R8A8_UNORM :: VkFormat where
  "VK_FORMAT_B8G8R8A8_UNORM = 44"

definition VK_COLOR_SPACE_SRGB_NONLINEAR_KHR :: VkColorSpaceKHR where
  "VK_COLOR_SPACE_SRGB_NONLINEAR_KHR = 0"

definition VK_PRESENT_MODE_IMMEDIATE_KHR :: VkPresentModeKHR where
  "VK_PRESENT_MODE_IMMEDIATE_KHR = 0"

definition VK_PRESENT_MODE_MAILBOX_KHR :: VkPresentModeKHR where
  "VK_PRESENT_MODE_MAILBOX_KHR = 1"

definition VK_PRESENT_MODE_FIFO_KHR :: VkPresentModeKHR where
  "VK_PRESENT_MODE_FIFO_KHR = 2"

definition VK_STRUCTURE_TYPE_SWAPCHAIN_CREATE_INFO_KHR :: int where
  "VK_STRUCTURE_TYPE_SWAPCHAIN_CREATE_INFO_KHR = 1000001000"

definition VK_STRUCTURE_TYPE_IMAGE_VIEW_CREATE_INFO :: int where
  "VK_STRUCTURE_TYPE_IMAGE_VIEW_CREATE_INFO = 15"

definition VK_STRUCTURE_TYPE_FRAMEBUFFER_CREATE_INFO :: int where
  "VK_STRUCTURE_TYPE_FRAMEBUFFER_CREATE_INFO = 37"

definition VK_IMAGE_USAGE_COLOR_ATTACHMENT_BIT :: uint32_t where
  "VK_IMAGE_USAGE_COLOR_ATTACHMENT_BIT = 16"

definition VK_SHARING_MODE_EXCLUSIVE :: int where
  "VK_SHARING_MODE_EXCLUSIVE = 0"

definition VK_COMPOSITE_ALPHA_OPAQUE_BIT_KHR :: uint32_t where
  "VK_COMPOSITE_ALPHA_OPAQUE_BIT_KHR = 1"

definition VK_TRUE :: uint32_t where
  "VK_TRUE = 1"

definition VK_IMAGE_VIEW_TYPE_2D :: int where
  "VK_IMAGE_VIEW_TYPE_2D = 1"

definition VK_COMPONENT_SWIZZLE_IDENTITY :: int where
  "VK_COMPONENT_SWIZZLE_IDENTITY = 0"

definition VK_IMAGE_ASPECT_COLOR_BIT :: uint32_t where
  "VK_IMAGE_ASPECT_COLOR_BIT = 1"

text \<open>\<^verbatim>\<open>std::numeric_limits<uint32_t>::max()\<close>\<close>

definition uint32_max :: uint32_t where
  "uint32_max = 0xFFFFFFFF"

record VkExtent2D =
  width :: uint32_t
  height :: uint32_t

text \<open>The fields of \<^verbatim>\<open>VkSurfaceCapabilitiesKHR\<close> that the component reads.\<close>

record VkSurfaceCapabilitiesKHR =
  minImageCount :: uint32_t
  maxImageCount :: uint32_t
  currentExtent :: VkExtent2D
  minImageExtent :: VkExtent2D
  maxImageExtent :: VkExtent2D
  currentTransform :: uint32_t

record VkSurfaceFormatKHR =
  format :: VkFormat
  colorSpace :: VkColorSpaceKHR

record SwapChainSupportDetails =
  capabilities :: VkSurfaceCapabilitiesKHR
  formats :: "VkSurfaceFormatKHR list"
  presentModes :: "VkPresentModeKHR list"

text \<open>
  Reading element 0 of an empty \<^verbatim>\<open>std::vector\<close> has no defined behaviour in C++; the
  model makes it the error value \<open>IndexOutOfRange\<close>. \<open>VulkanError r\<close> is an operation
  ended by the error check on the result code \<open>r\<close>.
\<close>

datatype error = IndexOutOfRange | VulkanError VkResult

section \<open>The selection functions\<close>

text \<open>The range-for loop of \<^verbatim>\<open>ChooseSwapSurfaceFormat\<close>: the first entry equal to the
  preferred pair ends the function.\<close>

fun ChooseSwapSurfaceFormat_loop :: "VkSurfaceFormatKHR list \<Rightarrow> VkSurfaceFormatKHR option" where
  "ChooseSwapSurfaceFormat_loop [] = None"
| "ChooseSwapSurfaceFormat_loop (availableFormat # rest) =
     (if format availableFormat = VK_FORMAT_B8G8R8A8_UNORM
         \<and> colorSpace availableFormat = VK_COLOR_SPACE_SRGB_NONLINEAR_KHR
      then Some availableFormat
      else ChooseSwapSurfaceFormat_loop rest)"

definition ChooseSwapSurfaceFormat :: "VkSurfaceFormatKHR list \<Rightarrow> error + VkSurfaceFormatKHR" where
  "ChooseSwapSurfaceFormat availableFormats =
     (if length availableFormats = 1 \<and> format (availableFormats ! 0) = VK_FORMAT_UNDEFINED
      then Inr \<lparr>format = VK_FORMAT_B8G8R8A8_UNORM, colorSpace = VK_COLOR_SPACE_SRGB_NONLINEAR_KHR\<rparr>
      else (case ChooseSwapSurfaceFormat_loop availableFormats of
              Some availableFormat \<Rightarrow> Inr availableFormat
            | None \<Rightarrow>
                (case availableFormats of
                   [] \<Rightarrow> Inl IndexOutOfRange
                 | first # _ \<Rightarrow> Inr first)))"

text \<open>The range-for loop of \<^verbatim>\<open>ChooseSwapPresentMode\<close>, with \<open>bestMode\<close> as accumulator.\<close>

fun ChooseSwapPresentMode_loop :: "VkPresentModeKHR \<Rightarrow> VkPresentModeKHR list \<Rightarrow> VkPresentModeKHR" where
  "ChooseSwapPresentMode_loop bestMode [] = bestMode"
| "ChooseSwapPresentMode_loop bestMode (availablePresentMode # rest) =
     (if availablePresentMode = VK_PRESENT_MODE_MAILBOX_KHR then availablePresentMode
      else if availablePresentMode = VK_PRESENT_MODE_IMMEDIATE_KHR
           then ChooseSwapPresentMode_loop availablePresentMode rest
           else ChooseSwapPresentMode_loop bestMode rest)"

definition ChooseSwapPresentMode :: "VkPresentModeKHR list \<Rightarrow> VkPresentModeKHR" where
  "ChooseSwapPresentMode availablePresentModes =
     ChooseSwapPresentMode_loop VK_PRESENT_MODE_FIFO_KHR availablePresentModes"

text \<open>Lines 41 to 46 of \<^verbatim>\<open>Create\<close>: the image count put into the creation request.
  The addition is the one of \<^verbatim>\<open>uint32_t\<close> and wraps around.\<close>

definition Create_imageCount :: "VkSurfaceCapabilitiesKHR \<Rightarrow> uint32_t" where
  "Create_imageCount caps =
     (let imageCount = minImageCount caps + 1
      in if maxImageCount caps > 0 \<and> imageCount > maxImageCount caps
         then maxImageCount caps
         else imageCount)"

text \<open>\<^verbatim>\<open>static_cast<uint32_t>\<close> of a C \<^verbatim>\<open>int\<close>: the value modulo \<open>2^32\<close>.\<close>

definition static_cast_uint32 :: "c_int \<Rightarrow> uint32_t" where
  "static_cast_uint32 i = word_of_int (sint i)"

section \<open>The platform and the calls made to it\<close>

text \<open>
  The creation requests, with the fields the code sets (all others are zero by the
  \<^verbatim>\<open>= {}\<close> initialiser). Field names carry a prefix, since a record field is a
  constant of the theory: \<open>sci_\<close> for \<^verbatim>\<open>VkSwapchainCreateInfoKHR\<close>, \<open>ivci_\<close> for
  \<^verbatim>\<open>VkImageViewCreateInfo\<close>, \<open>fbci_\<close> for \<^verbatim>\<open>VkFramebufferCreateInfo\<close>.
\<close>

record VkSwapchainCreateInfoKHR =
  sci_sType :: int
  sci_surface :: VkSurfaceKHR
  sci_minImageCount :: uint32_t
  sci_imageFormat :: VkFormat
  sci_imageColorSpace :: VkColorSpaceKHR
  sci_imageExtent :: VkExtent2D
  sci_imageArrayLayers :: uint32_t
  sci_imageUsage :: uint32_t
  sci_imageSharingMode :: int
  sci_preTransform :: uint32_t
  sci_compositeAlpha :: uint32_t
  sci_presentMode :: VkPresentModeKHR
  sci_clipped :: uint32_t
  sci_oldSwapchain :: VkSwapchainKHR

record VkImageViewCreateInfo =
  ivci_sType :: int
  ivci_image :: VkImage
  ivci_viewType :: int
  ivci_format :: VkFormat
  ivci_components_r :: int
  ivci_components_g :: int
  ivci_components_b :: int
  ivci_components_a :: int
  ivci_aspectMask :: uint32_t
  ivci_baseMipLevel :: uint32_t
  ivci_levelCount :: uint32_t
  ivci_baseArrayLayer :: uint32_t
  ivci_layerCount :: uint32_t

record VkFramebufferCreateInfo =
  fbci_sType :: int
  fbci_renderPass :: VkRenderPass
  fbci_attachmentCount :: uint32_t
  fbci_pAttachments :: "VkImageView list"
  fbci_width :: uint32_t
  fbci_height :: uint32_t
  fbci_layers :: uint32_t

text \<open>
  Every call to the platform is recorded, in order, with its arguments and with what the
  platform answered. For the calls that follow the protocol "count probe, then fill",
  the \<open>uint32_t option\<close> is the data pointer: \<open>None\<close> is \<^verbatim>\<open>nullptr\<close> (probe),
  \<open>Some n\<close> is a buffer together with the count \<open>n\<close> passed in. The answer is the
  result code, the count left in the count variable, and the elements written.
\<close>

datatype event =
    EvGetSurfaceCapabilities VkPhysicalDevice VkSurfaceKHR VkResult VkSurfaceCapabilitiesKHR
  | EvGetSurfaceFormats VkPhysicalDevice VkSurfaceKHR "uint32_t option" VkResult uint32_t
      "VkSurfaceFormatKHR list"
  | EvGetSurfacePresentModes VkPhysicalDevice VkSurfaceKHR "uint32_t option" VkResult uint32_t
      "VkPresentModeKHR list"
  | EvGetWindowSize GLFWwindow c_int c_int
  | EvCreateSwapchain VkDevice VkSwapchainCreateInfoKHR VkResult VkSwapchainKHR
  | EvGetSwapchainImages VkDevice VkSwapchainKHR "uint32_t option" VkResult uint32_t "VkImage list"
  | EvCreateImageView VkDevice VkImageViewCreateInfo VkResult VkImageView
  | EvCreateFramebuffer VkDevice VkFramebufferCreateInfo VkResult VkFramebuffer
  | EvDeviceWaitIdle VkDevice VkResult
  | EvDestroyImageView VkDevice VkImageView
  | EvDestroyFramebuffer VkDevice VkFramebuffer
  | EvDestroySwapchain VkDevice VkSwapchainKHR

text \<open>
  The platform is a parameter of every operation: each of its functions answers a call
  from the calls made so far and the arguments of this one. \<open>GetVkDevice\<close> is
  \<^verbatim>\<open>Display::Get()->GetVkDevice()\<close>, which the teardown functions evaluate anew at
  every call.
\<close>

record platform =
  vkGetPhysicalDeviceSurfaceCapabilitiesKHR ::
    "event list \<Rightarrow> VkPhysicalDevice \<Rightarrow> VkSurfaceKHR \<Rightarrow> VkResult \<times> VkSurfaceCapabilitiesKHR"
  vkGetPhysicalDeviceSurfaceFormatsKHR ::
    "event list \<Rightarrow> VkPhysicalDevice \<Rightarrow> VkSurfaceKHR \<Rightarrow> uint32_t option
       \<Rightarrow> VkResult \<times> uint32_t \<times> VkSurfaceFormatKHR list"
  vkGetPhysicalDeviceSurfacePresentModesKHR ::
    "event list \<Rightarrow> VkPhysicalDevice \<Rightarrow> VkSurfaceKHR \<Rightarrow> uint32_t option
       \<Rightarrow> VkResult \<times> uint32_t \<times> VkPresentModeKHR list"
  glfwGetWindowSize :: "event list \<Rightarrow> GLFWwindow \<Rightarrow> c_int \<times> c_int"
  vkCreateSwapchainKHR ::
    "event list \<Rightarrow> VkDevice \<Rightarrow> VkSwapchainCreateInfoKHR \<Rightarrow> VkResult \<times> VkSwapchainKHR"
  vkGetSwapchainImagesKHR ::
    "event list \<Rightarrow> VkDevice \<Rightarrow> VkSwapchainKHR \<Rightarrow> uint32_t option
       \<Rightarrow> VkResult \<times> uint32_t \<times> VkImage list"
  vkCreateImageView ::
    "event list \<Rightarrow> VkDevice \<Rightarrow> VkImageViewCreateInfo \<Rightarrow> VkResult \<times> VkImageView"
  vkCreateFramebuffer ::
    "event list \<Rightarrow> VkDevice \<Rightarrow> VkFramebufferCreateInfo \<Rightarrow> VkResult \<times> VkFramebuffer"
  vkDeviceWaitIdle :: "event list \<Rightarrow> VkDevice \<Rightarrow> VkResult"
  GetVkDevice :: "event list \<Rightarrow> VkDevice"

text \<open>\<^verbatim>\<open>std::vector::resize\<close>: keeps the first \<open>n\<close> elements, fills up with
  value-initialised ones.\<close>

definition resize :: "nat \<Rightarrow> 'a \<Rightarrow> 'a list \<Rightarrow> 'a list" where
  "resize n dflt v = take n v @ replicate (n - length v) dflt"

text \<open>The platform writing \<open>written\<close> through \<^verbatim>\<open>v.data()\<close>: it overwrites a prefix of
  the buffer, and never more elements than the buffer holds.\<close>

definition write_data :: "'a list \<Rightarrow> 'a list \<Rightarrow> 'a list" where
  "write_data written v = take (length v) written @ drop (length written) v"

text \<open>
  Modelled from the spec: \<^verbatim>\<open>GlfwVulkan::ErrorCheck\<close>, which is used by Swapchain.cpp and
  defined elsewhere in the repository. The spec: non-success codes are routed to a shared
  error-check utility that terminates the operation.
\<close>

definition ErrorCheck :: "VkResult \<Rightarrow> error + unit" where
  "ErrorCheck result = (if result = VK_SUCCESS then Inr () else Inl (VulkanError result))"

section \<open>The swapchain object\<close>

text \<open>\<open>m_logicalDevice\<close> is a pointer to a device handle; the model keeps the handle.\<close>

record Swapchain =
  m_logicalDevice :: VkDevice
  m_swapChain :: VkSwapchainKHR
  m_swapChainImages :: "VkImage list"
  m_swapChainImageViews :: "VkImageView list"
  m_swapChainFramebuffers :: "VkFramebuffer list"
  m_swapChainImageFormat :: VkFormat
  m_swapChainExtent :: VkExtent2D

text \<open>The constructor.\<close>

definition Swapchain_new :: Swapchain where
  "Swapchain_new =
     \<lparr>m_logicalDevice = VK_NULL_HANDLE,
      m_swapChain = VK_NULL_HANDLE,
      m_swapChainImages = [],
      m_swapChainImageViews = [],
      m_swapChainFramebuffers = [],
      m_swapChainImageFormat = 0,
      m_swapChainExtent = \<lparr>width = 0, height = 0\<rparr>\<rparr>"

section \<open>Querying and selecting\<close>

text \<open>
  \<^verbatim>\<open>QuerySwapChainSupport\<close>. No result code is looked at. The vectors of \<open>details\<close>
  start empty; a count of zero leaves them so.
\<close>

definition QuerySwapChainSupport ::
  "platform \<Rightarrow> VkPhysicalDevice \<Rightarrow> VkSurfaceKHR \<Rightarrow> event list
     \<Rightarrow> SwapChainSupportDetails \<times> event list" where
  "QuerySwapChainSupport vk device surface tr0 =
     (let (r0, caps) = vkGetPhysicalDeviceSurfaceCapabilitiesKHR vk tr0 device surface;
          tr1 = tr0 @ [EvGetSurfaceCapabilities device surface r0 caps];
          (r1, formatCount, _) = vkGetPhysicalDeviceSurfaceFormatsKHR vk tr1 device surface None;
          tr2 = tr1 @ [EvGetSurfaceFormats device surface None r1 formatCount []];
          (details_formats, tr3) =
            (if formatCount \<noteq> 0
             then (let resized = resize (unat formatCount) \<lparr>format = 0, colorSpace = 0\<rparr> [];
                       (r2, formatCount2, written) =
                          vkGetPhysicalDeviceSurfaceFormatsKHR vk tr2 device surface (Some formatCount)
                   in (write_data written resized,
                       tr2 @ [EvGetSurfaceFormats device surface (Some formatCount) r2 formatCount2 written]))
             else ([], tr2));
          (r3, presentModeCount, _) =
             vkGetPhysicalDeviceSurfacePresentModesKHR vk tr3 device surface None;
          tr4 = tr3 @ [EvGetSurfacePresentModes device surface None r3 presentModeCount []];
          (details_presentModes, tr5) =
            (if presentModeCount \<noteq> 0
             then (let resized = resize (unat presentModeCount) 0 [];
                       (r4, presentModeCount2, written) =
                          vkGetPhysicalDeviceSurfacePresentModesKHR vk tr4 device surface
                            (Some presentModeCount)
                   in (write_data written resized,
                       tr4 @ [EvGetSurfacePresentModes device surface (Some presentModeCount) r4
                                presentModeCount2 written]))
             else ([], tr4))
      in (\<lparr>capabilities = caps, formats = details_formats, presentModes = details_presentModes\<rparr>,
          tr5))"

text \<open>\<^verbatim>\<open>ChooseSwapExtent\<close>. The window is asked for its size only on the second path.\<close>

definition ChooseSwapExtent ::
  "platform \<Rightarrow> VkSurfaceCapabilitiesKHR \<Rightarrow> GLFWwindow \<Rightarrow> event list \<Rightarrow> VkExtent2D \<times> event list" where
  "ChooseSwapExtent vk caps window tr =
     (if width (currentExtent caps) \<noteq> uint32_max
      then (currentExtent caps, tr)
      else (let (w, h) = glfwGetWindowSize vk tr window;
                actualExtent =
                  \<lparr>width = max (width (minImageExtent caps))
                             (min (width (maxImageExtent caps)) (static_cast_uint32 w)),
                   height = max (height (minImageExtent caps))
                              (min (height (maxImageExtent caps)) (static_cast_uint32 h))\<rparr>
            in (actualExtent, tr @ [EvGetWindowSize window w h])))"

section \<open>Creating views and framebuffers\<close>

text \<open>
  The request \<^verbatim>\<open>createInfo\<close> of \<^verbatim>\<open>CreateImageViews\<close> for one image, and the loop
  from index \<open>i\<close> on. The handle the platform
  leaves in \<^verbatim>\<open>m_swapChainImageViews[i]\<close> is stored, then the result code is checked.
  The vector was sized by a \<^verbatim>\<open>uint32_t\<close>, so the 32-bit counter reaches its size.
\<close>

definition imageViewCreateInfo :: "VkImage \<Rightarrow> VkFormat \<Rightarrow> VkImageViewCreateInfo" where
  "imageViewCreateInfo img fmt =
     \<lparr>ivci_sType = VK_STRUCTURE_TYPE_IMAGE_VIEW_CREATE_INFO,
      ivci_image = img,
      ivci_viewType = VK_IMAGE_VIEW_TYPE_2D,
      ivci_format = fmt,
      ivci_components_r = VK_COMPONENT_SWIZZLE_IDENTITY,
      ivci_components_g = VK_COMPONENT_SWIZZLE_IDENTITY,
      ivci_components_b = VK_COMPONENT_SWIZZLE_IDENTITY,
      ivci_components_a = VK_COMPONENT_SWIZZLE_IDENTITY,
      ivci_aspectMask = VK_IMAGE_ASPECT_COLOR_BIT,
      ivci_baseMipLevel = 0,
      ivci_levelCount = 1,
      ivci_baseArrayLayer = 0,
      ivci_layerCount = 1\<rparr>"

function CreateImageViews_loop ::
  "platform \<Rightarrow> VkDevice \<Rightarrow> nat \<Rightarrow> Swapchain \<Rightarrow> event list \<Rightarrow> (error + Swapchain) \<times> event list" where
  "CreateImageViews_loop vk logicalDevice i s tr =
     (if i < length (m_swapChainImages s)
      then (let createInfo = imageViewCreateInfo (m_swapChainImages s ! i) (m_swapChainImageFormat s);
                answer = vkCreateImageView vk tr logicalDevice createInfo;
                tr' = tr @ [EvCreateImageView logicalDevice createInfo (fst answer) (snd answer)];
                s' = s\<lparr>m_swapChainImageViews := (m_swapChainImageViews s)[i := snd answer]\<rparr>
            in (case ErrorCheck (fst answer) of
                  Inl e \<Rightarrow> (Inl e, tr')
                | Inr _ \<Rightarrow> CreateImageViews_loop vk logicalDevice (Suc i) s' tr'))
      else (Inr s, tr))"
  by pat_completeness auto
termination
  by (relation "measure (\<lambda>(vk, logicalDevice, i, s, tr). length (m_swapChainImages s) - i)") auto

declare CreateImageViews_loop.simps [simp del]

definition CreateImageViews ::
  "platform \<Rightarrow> VkDevice \<Rightarrow> Swapchain \<Rightarrow> event list \<Rightarrow> (error + Swapchain) \<times> event list" where
  "CreateImageViews vk logicalDevice s tr =
     CreateImageViews_loop vk logicalDevice 0
       (s\<lparr>m_swapChainImageViews :=
            resize (length (m_swapChainImages s)) VK_NULL_HANDLE (m_swapChainImageViews s)\<rparr>)
       tr"

text \<open>The request \<^verbatim>\<open>framebufferInfo\<close> of \<^verbatim>\<open>CreateFramebuffers\<close> for the attachments
  of one framebuffer, and the loop from index \<open>i\<close> on.\<close>

definition framebufferCreateInfo ::
  "VkRenderPass \<Rightarrow> VkImageView list \<Rightarrow> VkExtent2D \<Rightarrow> VkFramebufferCreateInfo" where
  "framebufferCreateInfo renderPass attachments extent =
     \<lparr>fbci_sType = VK_STRUCTURE_TYPE_FRAMEBUFFER_CREATE_INFO,
      fbci_renderPass = renderPass,
      fbci_attachmentCount = 1,
      fbci_pAttachments = attachments,
      fbci_width = width extent,
      fbci_height = height extent,
      fbci_layers = 1\<rparr>"

function CreateFramebuffers_loop ::
  "platform \<Rightarrow> VkDevice \<Rightarrow> VkRenderPass \<Rightarrow> nat \<Rightarrow> Swapchain \<Rightarrow> event list
     \<Rightarrow> (error + Swapchain) \<times> event list" where
  "CreateFramebuffers_loop vk logicalDevice renderPass i s tr =
     (if i < length (m_swapChainImageViews s)
      then (let attachments = [m_swapChainImageViews s ! i];
                framebufferInfo = framebufferCreateInfo renderPass attachments (m_swapChainExtent s);
                answer = vkCreateFramebuffer vk tr logicalDevice framebufferInfo;
                tr' = tr @ [EvCreateFramebuffer logicalDevice framebufferInfo (fst answer) (snd answer)];
                s' = s\<lparr>m_swapChainFramebuffers := (m_swapChainFramebuffers s)[i := snd answer]\<rparr>
            in (case ErrorCheck (fst answer) of
                  Inl e \<Rightarrow> (Inl e, tr')
                | Inr _ \<Rightarrow> CreateFramebuffers_loop vk logicalDevice renderPass (Suc i) s' tr'))
      else (Inr s, tr))"
  by pat_completeness auto
termination
  by (relation "measure (\<lambda>(vk, logicalDevice, renderPass, i, s, tr).
                  length (m_swapChainImageViews s) - i)") auto

declare CreateFramebuffers_loop.simps [simp del]

definition CreateFramebuffers ::
  "platform \<Rightarrow> VkDevice \<Rightarrow> VkRenderPass \<Rightarrow> Swapchain \<Rightarrow> event list
     \<Rightarrow> (error + Swapchain) \<times> event list" where
  "CreateFramebuffers vk logicalDevice renderPass s tr =
     CreateFramebuffers_loop vk logicalDevice renderPass 0
       (s\<lparr>m_swapChainFramebuffers :=
            resize (length (m_swapChainImageViews s)) VK_NULL_HANDLE (m_swapChainFramebuffers s)\<rparr>)
       tr"

section \<open>Creating the chain\<close>

text \<open>
  \<^verbatim>\<open>Create\<close>, with its request \<^verbatim>\<open>createInfo\<close> first. The two calls of \<^verbatim>\<open>vkGetSwapchainImagesKHR\<close> are not checked; the
  count the first one leaves in \<open>imageCount\<close> sizes the image vector, and the second
  one fills it. The messages printed on success are not part of the model.
\<close>

definition swapchainCreateInfo ::
  "VkSurfaceKHR \<Rightarrow> uint32_t \<Rightarrow> VkSurfaceFormatKHR \<Rightarrow> VkExtent2D \<Rightarrow> uint32_t \<Rightarrow> VkPresentModeKHR
     \<Rightarrow> VkSwapchainCreateInfoKHR" where
  "swapchainCreateInfo surface imageCount surfaceFormat extent preTransform presentMode =
     \<lparr>sci_sType = VK_STRUCTURE_TYPE_SWAPCHAIN_CREATE_INFO_KHR,
      sci_surface = surface,
      sci_minImageCount = imageCount,
      sci_imageFormat = format surfaceFormat,
      sci_imageColorSpace = colorSpace surfaceFormat,
      sci_imageExtent = extent,
      sci_imageArrayLayers = 1,
      sci_imageUsage = VK_IMAGE_USAGE_COLOR_ATTACHMENT_BIT,
      sci_imageSharingMode = VK_SHARING_MODE_EXCLUSIVE,
      sci_preTransform = preTransform,
      sci_compositeAlpha = VK_COMPOSITE_ALPHA_OPAQUE_BIT_KHR,
      sci_presentMode = presentMode,
      sci_clipped = VK_TRUE,
      sci_oldSwapchain = VK_NULL_HANDLE\<rparr>"

definition Create ::
  "platform \<Rightarrow> VkDevice \<Rightarrow> VkPhysicalDevice \<Rightarrow> VkSurfaceKHR \<Rightarrow> GLFWwindow \<Rightarrow> Swapchain \<Rightarrow> event list
     \<Rightarrow> (error + Swapchain) \<times> event list" where
  "Create vk logicalDevice physicalDevice surface window s tr0 =
     (let s1 = s\<lparr>m_logicalDevice := logicalDevice\<rparr>;
          (swapChainSupport, tr1) = QuerySwapChainSupport vk physicalDevice surface tr0
      in (case ChooseSwapSurfaceFormat (formats swapChainSupport) of
            Inl e \<Rightarrow> (Inl e, tr1)
          | Inr surfaceFormat \<Rightarrow>
              (let presentMode = ChooseSwapPresentMode (presentModes swapChainSupport);
                   (extent, tr2) = ChooseSwapExtent vk (capabilities swapChainSupport) window tr1;
                   imageCount = Create_imageCount (capabilities swapChainSupport);
                   createInfo =
                     swapchainCreateInfo surface imageCount surfaceFormat extent
                       (currentTransform (capabilities swapChainSupport)) presentMode;
                   answer = vkCreateSwapchainKHR vk tr2 logicalDevice createInfo;
                   tr3 = tr2 @ [EvCreateSwapchain logicalDevice createInfo (fst answer) (snd answer)];
                   s2 = s1\<lparr>m_swapChain := snd answer\<rparr>
               in (case ErrorCheck (fst answer) of
                     Inl e \<Rightarrow> (Inl e, tr3)
                   | Inr _ \<Rightarrow>
                       (let (r1, imageCount1, _) =
                               vkGetSwapchainImagesKHR vk tr3 logicalDevice (m_swapChain s2) None;
                            tr4 = tr3 @ [EvGetSwapchainImages logicalDevice (m_swapChain s2) None r1
                                           imageCount1 []];
                            resized = resize (unat imageCount1) VK_NULL_HANDLE (m_swapChainImages s2);
                            (r2, imageCount2, written) =
                               vkGetSwapchainImagesKHR vk tr4 logicalDevice (m_swapChain s2)
                                 (Some imageCount1);
                            tr5 = tr4 @ [EvGetSwapchainImages logicalDevice (m_swapChain s2)
                                           (Some imageCount1) r2 imageCount2 written];
                            s3 = s2\<lparr>m_swapChainImages := write_data written resized,
                                    m_swapChainImageFormat := format surfaceFormat,
                                    m_swapChainExtent := extent\<rparr>
                        in CreateImageViews vk logicalDevice s3 tr5)))))"

section \<open>Teardown\<close>

text \<open>
  The loops of the two teardown functions read the vectors in index order and change
  nothing in the object, so they recurse over the handles. The device is fetched anew
  for every call.
\<close>

fun CleanupFrameBuffers_loop :: "platform \<Rightarrow> VkFramebuffer list \<Rightarrow> event list \<Rightarrow> event list" where
  "CleanupFrameBuffers_loop vk [] tr = tr"
| "CleanupFrameBuffers_loop vk (framebuffer # rest) tr =
     CleanupFrameBuffers_loop vk rest (tr @ [EvDestroyFramebuffer (GetVkDevice vk tr) framebuffer])"

definition CleanupFrameBuffers :: "platform \<Rightarrow> Swapchain \<Rightarrow> event list \<Rightarrow> Swapchain \<times> event list" where
  "CleanupFrameBuffers vk s tr =
     (let device = GetVkDevice vk tr;
          tr1 = tr @ [EvDeviceWaitIdle device (vkDeviceWaitIdle vk tr device)]
      in (s, CleanupFrameBuffers_loop vk (m_swapChainFramebuffers s) tr1))"

fun Cleanup_loop :: "platform \<Rightarrow> VkImageView list \<Rightarrow> event list \<Rightarrow> event list" where
  "Cleanup_loop vk [] tr = tr"
| "Cleanup_loop vk (imageView # rest) tr =
     Cleanup_loop vk rest (tr @ [EvDestroyImageView (GetVkDevice vk tr) imageView])"

definition Cleanup :: "platform \<Rightarrow> Swapchain \<Rightarrow> event list \<Rightarrow> Swapchain \<times> event list" where
  "Cleanup vk s tr =
     (let device = GetVkDevice vk tr;
          tr1 = tr @ [EvDeviceWaitIdle device (vkDeviceWaitIdle vk tr device)];
          tr2 = Cleanup_loop vk (m_swapChainImageViews s) tr1
      in (s, tr2 @ [EvDestroySwapchain (GetVkDevice vk tr2) (m_swapChain s)]))"

text \<open>The destructor \<^verbatim>\<open>~Swapchain\<close>.\<close>

definition Swapchain_destructor :: "platform \<Rightarrow> Swapchain \<Rightarrow> event list \<Rightarrow> Swapchain \<times> event list" where
  "Swapchain_destructor vk s tr =
     (let (s1, tr1) = CleanupFrameBuffers vk s tr
      in Cleanup vk s1 tr1)"

section \<open>Reading the record of calls\<close>

text \<open>The teardown calls of the record, without the device they were made on.\<close>

datatype teardown_call =
    WaitIdle
  | DestroyFramebuffer VkFramebuffer
  | DestroyImageView VkImageView
  | DestroySwapchain VkSwapchainKHR
  | OtherCall

fun teardown_call_of :: "event \<Rightarrow> teardown_call" where
  "teardown_call_of (EvDeviceWaitIdle _ _) = WaitIdle"
| "teardown_call_of (EvDestroyFramebuffer _ fb) = DestroyFramebuffer fb"
| "teardown_call_of (EvDestroyImageView _ v) = DestroyImageView v"
| "teardown_call_of (EvDestroySwapchain _ c) = DestroySwapchain c"
| "teardown_call_of _ = OtherCall"

fun is_destroy :: "teardown_call \<Rightarrow> bool" where
  "is_destroy (DestroyFramebuffer _) = True"
| "is_destroy (DestroyImageView _) = True"
| "is_destroy (DestroySwapchain _) = True"
| "is_destroy _ = False"

fun is_framebuffer_destroy :: "teardown_call \<Rightarrow> bool" where
  "is_framebuffer_destroy (DestroyFramebuffer _) = True"
| "is_framebuffer_destroy _ = False"

fun is_chain_tier_destroy :: "teardown_call \<Rightarrow> bool" where
  "is_chain_tier_destroy (DestroyImageView _) = True"
| "is_chain_tier_destroy (DestroySwapchain _) = True"
| "is_chain_tier_destroy _ = False"

text \<open>Every destroying call of \<open>cs\<close> has a device-idle wait somewhere before it in \<open>cs\<close>.\<close>

definition wait_before_every_destroy :: "teardown_call list \<Rightarrow> bool" where
  "wait_before_every_destroy cs =
     (\<forall>j < length cs. is_destroy (cs ! j) \<longrightarrow> (\<exists>i < j. cs ! i = WaitIdle))"

text \<open>No framebuffer is destroyed after an image view or the chain has been.\<close>

definition framebuffers_torn_down_first :: "teardown_call list \<Rightarrow> bool" where
  "framebuffers_torn_down_first cs =
     (\<forall>j < length cs. \<forall>i < j. is_chain_tier_destroy (cs ! i) \<longrightarrow> \<not> is_framebuffer_destroy (cs ! j))"

text \<open>The calls that query the surface and the window, the creations of image views,
  and the creations of framebuffers.\<close>

fun is_support_query :: "event \<Rightarrow> bool" where
  "is_support_query (EvGetSurfaceCapabilities _ _ _ _) = True"
| "is_support_query (EvGetSurfaceFormats _ _ _ _ _ _) = True"
| "is_support_query (EvGetSurfacePresentModes _ _ _ _ _ _) = True"
| "is_support_query (EvGetWindowSize _ _ _) = True"
| "is_support_query _ = False"

fun is_view_creation :: "event \<Rightarrow> bool" where
  "is_view_creation (EvCreateImageView _ _ _ _) = True"
| "is_view_creation _ = False"

fun is_framebuffer_creation :: "event \<Rightarrow> bool" where
  "is_framebuffer_creation (EvCreateFramebuffer _ _ _ _) = True"
| "is_framebuffer_creation _ = False"

text \<open>The result code of a call whose result the code passes to \<open>ErrorCheck\<close>.\<close>

fun checked_result :: "event \<Rightarrow> VkResult option" where
  "checked_result (EvCreateSwapchain _ _ r _) = Some r"
| "checked_result (EvCreateImageView _ _ r _) = Some r"
| "checked_result (EvCreateFramebuffer _ _ r _) = Some r"
| "checked_result _ = None"

text \<open>The result code of any call that returns one.\<close>

fun result_code :: "event \<Rightarrow> VkResult option" where
  "result_code (EvGetSurfaceCapabilities _ _ r _) = Some r"
| "result_code (EvGetSurfaceFormats _ _ _ r _ _) = Some r"
| "result_code (EvGetSurfacePresentModes _ _ _ r _ _) = Some r"
| "result_code (EvCreateSwapchain _ _ r _) = Some r"
| "result_code (EvGetSwapchainImages _ _ _ r _ _) = Some r"
| "result_code (EvCreateImageView _ _ r _) = Some r"
| "result_code (EvCreateFramebuffer _ _ r _) = Some r"
| "result_code (EvDeviceWaitIdle _ r) = Some r"
| "result_code _ = None"

text \<open>
  \<open>failures_end_operation sel res evs\<close>: among the calls \<open>evs\<close> of one operation that
  ended with \<open>res\<close>, a call selected by \<open>sel\<close> that answered a non-success code is the last
  call made, and the operation ended with that code as its error.
\<close>

definition failures_end_operation ::
  "(event \<Rightarrow> VkResult option) \<Rightarrow> (error + 'a) \<Rightarrow> event list \<Rightarrow> bool" where
  "failures_end_operation sel res evs =
     (\<forall>i < length evs.
        (case sel (evs ! i) of
           None \<Rightarrow> True
         | Some r \<Rightarrow> r = VK_SUCCESS \<or> (Suc i = length evs \<and> res = Inl (VulkanError r))))"














section \<open>A platform to run the operations on\<close>

text \<open>
  A platform with one surface format, two present modes, a dictated extent and no upper
  bound on the image count. It hands out a fresh handle at every creation, and it
  allocates more images than it was asked for: two more than the number of chains
  created so far.
\<close>

fun is_chain_creation :: "event \<Rightarrow> bool" where
  "is_chain_creation (EvCreateSwapchain _ _ _ _) = True"
| "is_chain_creation _ = False"

definition sample_images :: "event list \<Rightarrow> VkImage list" where
  "sample_images tr = map (\<lambda>k. 100 * length tr + k) [0 ..< 2 + length (filter is_chain_creation tr)]"

definition sample_platform :: platform where
  "sample_platform =
     \<lparr>vkGetPhysicalDeviceSurfaceCapabilitiesKHR = (\<lambda>tr device surface.
         (VK_SUCCESS,
          \<lparr>minImageCount = 1, maxImageCount = 0,
           currentExtent = \<lparr>width = 1920, height = 1080\<rparr>,
           minImageExtent = \<lparr>width = 1, height = 1\<rparr>,
           maxImageExtent = \<lparr>width = 4096, height = 4096\<rparr>,
           currentTransform = 1\<rparr>)),
      vkGetPhysicalDeviceSurfaceFormatsKHR = (\<lambda>tr device surface buffer.
         (VK_SUCCESS, 1,
          [\<lparr>format = VK_FORMAT_B8G8R8A8_UNORM, colorSpace = VK_COLOR_SPACE_SRGB_NONLINEAR_KHR\<rparr>])),
      vkGetPhysicalDeviceSurfacePresentModesKHR = (\<lambda>tr device surface buffer.
         (VK_SUCCESS, 2, [VK_PRESENT_MODE_FIFO_KHR, VK_PRESENT_MODE_MAILBOX_KHR])),
      glfwGetWindowSize = (\<lambda>tr window. (800, 600)),
      vkCreateSwapchainKHR = (\<lambda>tr device createInfo. (VK_SUCCESS, 100 * length tr + 1)),
      vkGetSwapchainImagesKHR = (\<lambda>tr device chain buffer.
         (VK_SUCCESS, word_of_nat (length (sample_images tr)), sample_images tr)),
      vkCreateImageView = (\<lambda>tr device createInfo. (VK_SUCCESS, 100 * length tr + 2)),
      vkCreateFramebuffer = (\<lambda>tr device createInfo. (VK_SUCCESS, 100 * length tr + 3)),
      vkDeviceWaitIdle = (\<lambda>tr device. VK_SUCCESS),
      GetVkDevice = (\<lambda>tr. 7)\<rparr>"

definition window_platform :: "c_int \<Rightarrow> c_int \<Rightarrow> platform" where
  "window_platform w h = sample_platform\<lparr>glfwGetWindowSize := (\<lambda>tr window. (w, h))\<rparr>"

text \<open>Capabilities that leave the extent to the window.\<close>

definition sample_capabilities :: VkSurfaceCapabilitiesKHR where
  "sample_capabilities =
     \<lparr>minImageCount = 2, maxImageCount = 8,
      currentExtent = \<lparr>width = uint32_max, height = uint32_max\<rparr>,
      minImageExtent = \<lparr>width = 64, height = 64\<rparr>,
      maxImageExtent = \<lparr>width = 1024, height = 512\<rparr>,
      currentTransform = 1\<rparr>"

section \<open>The selection of the surface format, as the specification words it\<close>

definition preferred_pair :: VkSurfaceFormatKHR where
  "preferred_pair = \<lparr>format = VK_FORMAT_B8G8R8A8_UNORM, colorSpace = VK_COLOR_SPACE_SRGB_NONLINEAR_KHR\<rparr>"

text \<open>"If the input sequence contains exactly one entry whose format is the undefined
  sentinel, the preferred pair; otherwise the first entry equal to the preferred pair; if
  no entry matches, the first entry."\<close>

definition SelectSurfaceFormat_reference :: "VkSurfaceFormatKHR list \<Rightarrow> VkSurfaceFormatKHR" where
  "SelectSurfaceFormat_reference fs =
     (if length (filter (\<lambda>e. format e = VK_FORMAT_UNDEFINED) fs) = 1 then preferred_pair
      else (case find (\<lambda>e. e = preferred_pair) fs of Some e \<Rightarrow> e | None \<Rightarrow> hd fs))"

text \<open>The same, with the first case read as: the sequence has exactly one entry, and the
  format of that entry is the undefined sentinel.\<close>

definition SelectSurfaceFormat_single :: "VkSurfaceFormatKHR list \<Rightarrow> VkSurfaceFormatKHR" where
  "SelectSurfaceFormat_single fs =
     (if length fs = 1 \<and> format (hd fs) = VK_FORMAT_UNDEFINED then preferred_pair
      else (case find (\<lambda>e. e = preferred_pair) fs of Some e \<Rightarrow> e | None \<Rightarrow> hd fs))"

section \<open>Further platforms and states to run the operations on\<close>

text \<open>The count the platform answers to the count probe for the surface formats, when
  \<^verbatim>\<open>QuerySwapChainSupport\<close> starts after the calls \<open>tr\<close>.\<close>

definition formats_probe_count :: "platform \<Rightarrow> VkPhysicalDevice \<Rightarrow> VkSurfaceKHR \<Rightarrow> event list \<Rightarrow> uint32_t" where
  "formats_probe_count vk device surface tr =
     (let answer = vkGetPhysicalDeviceSurfaceCapabilitiesKHR vk tr device surface;
          tr1 = tr @ [EvGetSurfaceCapabilities device surface (fst answer) (snd answer)]
      in fst (snd (vkGetPhysicalDeviceSurfaceFormatsKHR vk tr1 device surface None)))"

text \<open>A platform that reports no surface format at all.\<close>

definition no_formats_platform :: platform where
  "no_formats_platform =
     sample_platform\<lparr>vkGetPhysicalDeviceSurfaceFormatsKHR := (\<lambda>tr device surface buffer. (VK_SUCCESS, 0, []))\<rparr>"

text \<open>A swapchain object with two images, their views and framebuffers.\<close>

definition sample_swapchain :: Swapchain where
  "sample_swapchain =
     \<lparr>m_logicalDevice = 7,
      m_swapChain = 501,
      m_swapChainImages = [700, 701],
      m_swapChainImageViews = [802, 902],
      m_swapChainFramebuffers = [1003, 1103],
      m_swapChainImageFormat = VK_FORMAT_B8G8R8A8_UNORM,
      m_swapChainExtent = \<lparr>width = 1920, height = 1080\<rparr>\<rparr>"

text \<open>A result code of failure, with its value in \<^verbatim>\<open>vulkan_core.h\<close>.\<close>

definition VK_ERROR_DEVICE_LOST :: VkResult where
  "VK_ERROR_DEVICE_LOST = - 4"

text \<open>A platform on which every query, the fetching of the images of a chain and the
  wait for the device answer that the device is lost, while the creations succeed; and a
  platform that refuses to create a chain.\<close>

definition lost_device_platform :: platform where
  "lost_device_platform =
     \<lparr>vkGetPhysicalDeviceSurfaceCapabilitiesKHR = (\<lambda>tr device surface.
         (VK_ERROR_DEVICE_LOST, sample_capabilities)),
      vkGetPhysicalDeviceSurfaceFormatsKHR = (\<lambda>tr device surface buffer.
         (VK_ERROR_DEVICE_LOST, 1, [preferred_pair])),
      vkGetPhysicalDeviceSurfacePresentModesKHR = (\<lambda>tr device surface buffer.
         (VK_ERROR_DEVICE_LOST, 1, [VK_PRESENT_MODE_FIFO_KHR])),
      glfwGetWindowSize = (\<lambda>tr window. (800, 600)),
      vkCreateSwapchainKHR = (\<lambda>tr device createInfo. (VK_SUCCESS, 501)),
      vkGetSwapchainImagesKHR = (\<lambda>tr device chain buffer. (VK_ERROR_DEVICE_LOST, 0, [])),
      vkCreateImageView = (\<lambda>tr device createInfo. (VK_SUCCESS, 802)),
      vkCreateFramebuffer = (\<lambda>tr device createInfo. (VK_SUCCESS, 1003)),
      vkDeviceWaitIdle = (\<lambda>tr device. VK_ERROR_DEVICE_LOST),
      GetVkDevice = (\<lambda>tr. 7)\<rparr>"

definition refusing_platform :: platform where
  "refusing_platform =
     sample_platform
       \<lparr>vkCreateSwapchainKHR := (\<lambda>tr device createInfo. (VK_ERROR_DEVICE_LOST, VK_NULL_HANDLE))\<rparr>"




section \<open>The steps of the two creation loops\<close>

text \<open>What the platform answers in the step \<open>i\<close> of a loop, and the call that is
  recorded for it.\<close>

definition view_answer :: "platform \<Rightarrow> VkDevice \<Rightarrow> nat \<Rightarrow> Swapchain \<Rightarrow> event list \<Rightarrow> VkResult \<times> VkImageView" where
  "view_answer vk d i s tr =
     vkCreateImageView vk tr d (imageViewCreateInfo (m_swapChainImages s ! i) (m_swapChainImageFormat s))"

definition view_event :: "platform \<Rightarrow> VkDevice \<Rightarrow> nat \<Rightarrow> Swapchain \<Rightarrow> event list \<Rightarrow> event" where
  "view_event vk d i s tr =
     EvCreateImageView d (imageViewCreateInfo (m_swapChainImages s ! i) (m_swapChainImageFormat s))
       (fst (view_answer vk d i s tr)) (snd (view_answer vk d i s tr))"

definition framebuffer_answer ::
  "platform \<Rightarrow> VkDevice \<Rightarrow> VkRenderPass \<Rightarrow> nat \<Rightarrow> Swapchain \<Rightarrow> event list \<Rightarrow> VkResult \<times> VkFramebuffer" where
  "framebuffer_answer vk d rp i s tr =
     vkCreateFramebuffer vk tr d
       (framebufferCreateInfo rp [m_swapChainImageViews s ! i] (m_swapChainExtent s))"

definition framebuffer_event ::
  "platform \<Rightarrow> VkDevice \<Rightarrow> VkRenderPass \<Rightarrow> nat \<Rightarrow> Swapchain \<Rightarrow> event list \<Rightarrow> event" where
  "framebuffer_event vk d rp i s tr =
     EvCreateFramebuffer d (framebufferCreateInfo rp [m_swapChainImageViews s ! i] (m_swapChainExtent s))
       (fst (framebuffer_answer vk d rp i s tr)) (snd (framebuffer_answer vk d rp i s tr))"

section \<open>The present mode\<close>

lemma ChooseSwapPresentMode_loop_mailbox:
  "VK_PRESENT_MODE_MAILBOX_KHR \<in> set ms \<Longrightarrow>
     ChooseSwapPresentMode_loop b ms = VK_PRESENT_MODE_MAILBOX_KHR"
  by (induction ms arbitrary: b) auto

lemma ChooseSwapPresentMode_loop_neither:
  "VK_PRESENT_MODE_MAILBOX_KHR \<notin> set ms \<Longrightarrow> VK_PRESENT_MODE_IMMEDIATE_KHR \<notin> set ms \<Longrightarrow>
     ChooseSwapPresentMode_loop b ms = b"
  by (induction ms arbitrary: b) auto

lemma ChooseSwapPresentMode_loop_immediate:
  "VK_PRESENT_MODE_MAILBOX_KHR \<notin> set ms \<Longrightarrow> VK_PRESENT_MODE_IMMEDIATE_KHR \<in> set ms \<Longrightarrow>
     ChooseSwapPresentMode_loop b ms = VK_PRESENT_MODE_IMMEDIATE_KHR"
proof (induction ms arbitrary: b)
  case Nil
  then show ?case by simp
next
  case (Cons m ms)
  show ?case
  proof (cases "VK_PRESENT_MODE_IMMEDIATE_KHR \<in> set ms")
    case True
    with Cons show ?thesis by auto
  next
    case False
    with Cons.prems ChooseSwapPresentMode_loop_neither [of ms] show ?thesis by auto
  qed
qed

text \<open>
  C3: \<^verbatim>\<open>ChooseSwapPresentMode\<close> has the precedence mailbox, then immediate, then FIFO:
  a sequence that contains the mailbox mode gives mailbox, wherever an immediate mode
  stands in it; a sequence with immediate and without mailbox gives immediate; a sequence
  with neither gives FIFO.
\<close>

theorem ChooseSwapPresentMode_precedence:
  "(VK_PRESENT_MODE_MAILBOX_KHR \<in> set ms \<longrightarrow>
      ChooseSwapPresentMode ms = VK_PRESENT_MODE_MAILBOX_KHR)
   \<and> (VK_PRESENT_MODE_IMMEDIATE_KHR \<in> set ms \<and> VK_PRESENT_MODE_MAILBOX_KHR \<notin> set ms \<longrightarrow>
        ChooseSwapPresentMode ms = VK_PRESENT_MODE_IMMEDIATE_KHR)
   \<and> (VK_PRESENT_MODE_IMMEDIATE_KHR \<notin> set ms \<and> VK_PRESENT_MODE_MAILBOX_KHR \<notin> set ms \<longrightarrow>
        ChooseSwapPresentMode ms = VK_PRESENT_MODE_FIFO_KHR)"
  by (simp add: ChooseSwapPresentMode_def ChooseSwapPresentMode_loop_mailbox
        ChooseSwapPresentMode_loop_immediate ChooseSwapPresentMode_loop_neither)

theorem ChooseSwapPresentMode_precedence_witness:
  "VK_PRESENT_MODE_MAILBOX_KHR
      \<in> set [VK_PRESENT_MODE_IMMEDIATE_KHR, VK_PRESENT_MODE_FIFO_KHR, VK_PRESENT_MODE_MAILBOX_KHR]
   \<and> ChooseSwapPresentMode
        [VK_PRESENT_MODE_IMMEDIATE_KHR, VK_PRESENT_MODE_FIFO_KHR, VK_PRESENT_MODE_MAILBOX_KHR]
       = VK_PRESENT_MODE_MAILBOX_KHR
   \<and> VK_PRESENT_MODE_IMMEDIATE_KHR \<in> set [VK_PRESENT_MODE_FIFO_KHR, VK_PRESENT_MODE_IMMEDIATE_KHR]
   \<and> VK_PRESENT_MODE_MAILBOX_KHR \<notin> set [VK_PRESENT_MODE_FIFO_KHR, VK_PRESENT_MODE_IMMEDIATE_KHR]
   \<and> ChooseSwapPresentMode [VK_PRESENT_MODE_FIFO_KHR, VK_PRESENT_MODE_IMMEDIATE_KHR]
       = VK_PRESENT_MODE_IMMEDIATE_KHR
   \<and> VK_PRESENT_MODE_IMMEDIATE_KHR \<notin> set [VK_PRESENT_MODE_FIFO_KHR, 3]
   \<and> VK_PRESENT_MODE_MAILBOX_KHR \<notin> set [VK_PRESENT_MODE_FIFO_KHR, 3]
   \<and> ChooseSwapPresentMode [VK_PRESENT_MODE_FIFO_KHR, 3] = VK_PRESENT_MODE_FIFO_KHR"
proof -
  have h1: "VK_PRESENT_MODE_MAILBOX_KHR
      \<in> set [VK_PRESENT_MODE_IMMEDIATE_KHR, VK_PRESENT_MODE_FIFO_KHR, VK_PRESENT_MODE_MAILBOX_KHR]"
    by simp
  have h2: "VK_PRESENT_MODE_IMMEDIATE_KHR \<in> set [VK_PRESENT_MODE_FIFO_KHR, VK_PRESENT_MODE_IMMEDIATE_KHR]
      \<and> VK_PRESENT_MODE_MAILBOX_KHR \<notin> set [VK_PRESENT_MODE_FIFO_KHR, VK_PRESENT_MODE_IMMEDIATE_KHR]"
    by (simp add: VK_PRESENT_MODE_MAILBOX_KHR_def VK_PRESENT_MODE_IMMEDIATE_KHR_def
          VK_PRESENT_MODE_FIFO_KHR_def)
  have h3: "VK_PRESENT_MODE_IMMEDIATE_KHR \<notin> set [VK_PRESENT_MODE_FIFO_KHR, 3]
      \<and> VK_PRESENT_MODE_MAILBOX_KHR \<notin> set [VK_PRESENT_MODE_FIFO_KHR, 3]"
    by (simp add: VK_PRESENT_MODE_MAILBOX_KHR_def VK_PRESENT_MODE_IMMEDIATE_KHR_def
          VK_PRESENT_MODE_FIFO_KHR_def)
  from h1 h2 h3
    ChooseSwapPresentMode_precedence
      [of "[VK_PRESENT_MODE_IMMEDIATE_KHR, VK_PRESENT_MODE_FIFO_KHR, VK_PRESENT_MODE_MAILBOX_KHR]"]
    ChooseSwapPresentMode_precedence [of "[VK_PRESENT_MODE_FIFO_KHR, VK_PRESENT_MODE_IMMEDIATE_KHR]"]
    ChooseSwapPresentMode_precedence [of "[VK_PRESENT_MODE_FIFO_KHR, 3]"]
  show ?thesis by blast
qed

section \<open>The surface format\<close>

lemma preferred_pair_iff:
  "(e = preferred_pair) = (format e = VK_FORMAT_B8G8R8A8_UNORM \<and> colorSpace e = VK_COLOR_SPACE_SRGB_NONLINEAR_KHR)"
  by (cases e) (simp add: preferred_pair_def)

lemma ChooseSwapSurfaceFormat_loop_find:
  "ChooseSwapSurfaceFormat_loop fs = find (\<lambda>e. e = preferred_pair) fs"
  by (induction fs) (simp_all add: preferred_pair_iff)

text \<open>
  C4, as stated: \<^verbatim>\<open>ChooseSwapSurfaceFormat\<close> on a non-empty sequence equals
  \<open>SelectSurfaceFormat_reference\<close>. It does not: a sequence of two entries, the first
  with the undefined format, contains exactly one such entry; the code answers the first
  entry, the reference the preferred pair.
\<close>

theorem ChooseSwapSurfaceFormat_reference_counterexample:
  "[\<lparr>format = VK_FORMAT_UNDEFINED, colorSpace = 0\<rparr>, \<lparr>format = 37, colorSpace = 0\<rparr>] \<noteq> []
   \<and> ChooseSwapSurfaceFormat [\<lparr>format = VK_FORMAT_UNDEFINED, colorSpace = 0\<rparr>, \<lparr>format = 37, colorSpace = 0\<rparr>]
       = Inr \<lparr>format = VK_FORMAT_UNDEFINED, colorSpace = 0\<rparr>
   \<and> SelectSurfaceFormat_reference [\<lparr>format = VK_FORMAT_UNDEFINED, colorSpace = 0\<rparr>, \<lparr>format = 37, colorSpace = 0\<rparr>]
       = preferred_pair
   \<and> ChooseSwapSurfaceFormat [\<lparr>format = VK_FORMAT_UNDEFINED, colorSpace = 0\<rparr>, \<lparr>format = 37, colorSpace = 0\<rparr>]
       \<noteq> Inr (SelectSurfaceFormat_reference [\<lparr>format = VK_FORMAT_UNDEFINED, colorSpace = 0\<rparr>, \<lparr>format = 37, colorSpace = 0\<rparr>])"
  by (simp add: ChooseSwapSurfaceFormat_def SelectSurfaceFormat_reference_def preferred_pair_def
        VK_FORMAT_UNDEFINED_def VK_FORMAT_B8G8R8A8_UNORM_def VK_COLOR_SPACE_SRGB_NONLINEAR_KHR_def)

text \<open>
  C4, amended: on a non-empty sequence, \<^verbatim>\<open>ChooseSwapSurfaceFormat\<close> returns the
  preferred pair if the sequence has exactly one entry and that entry's format is the
  undefined sentinel; otherwise the first entry equal to the preferred pair; if no entry
  matches, the first entry of the sequence.
\<close>

theorem ChooseSwapSurfaceFormat_single: "fs \<noteq> [] \<Longrightarrow> ChooseSwapSurfaceFormat fs = Inr (SelectSurfaceFormat_single fs)"
  by (cases fs)
     (auto simp: ChooseSwapSurfaceFormat_def SelectSurfaceFormat_single_def
        ChooseSwapSurfaceFormat_loop_find preferred_pair_def split: option.splits)

theorem ChooseSwapSurfaceFormat_single_witness:
  "[\<lparr>format = VK_FORMAT_UNDEFINED, colorSpace = 0\<rparr>, \<lparr>format = 37, colorSpace = 0\<rparr>] \<noteq> []
   \<and> ChooseSwapSurfaceFormat [\<lparr>format = VK_FORMAT_UNDEFINED, colorSpace = 0\<rparr>, \<lparr>format = 37, colorSpace = 0\<rparr>]
       = Inr (SelectSurfaceFormat_single [\<lparr>format = VK_FORMAT_UNDEFINED, colorSpace = 0\<rparr>, \<lparr>format = 37, colorSpace = 0\<rparr>])
   \<and> SelectSurfaceFormat_single [\<lparr>format = VK_FORMAT_UNDEFINED, colorSpace = 0\<rparr>, \<lparr>format = 37, colorSpace = 0\<rparr>]
       = \<lparr>format = VK_FORMAT_UNDEFINED, colorSpace = 0\<rparr>"
proof -
  have ne: "[\<lparr>format = VK_FORMAT_UNDEFINED, colorSpace = 0\<rparr>, \<lparr>format = 37, colorSpace = 0\<rparr>] \<noteq> []"
    by simp
  have v: "SelectSurfaceFormat_single [\<lparr>format = VK_FORMAT_UNDEFINED, colorSpace = 0\<rparr>, \<lparr>format = 37, colorSpace = 0\<rparr>]
       = \<lparr>format = VK_FORMAT_UNDEFINED, colorSpace = 0\<rparr>"
    by (simp add: SelectSurfaceFormat_single_def preferred_pair_def
        VK_FORMAT_UNDEFINED_def VK_FORMAT_B8G8R8A8_UNORM_def)
  from ChooseSwapSurfaceFormat_single [OF ne] ne v show ?thesis by blast
qed

section \<open>The image count\<close>

lemma uint32_max_minus_one: "uint32_max = - 1"
  by (simp add: uint32_max_def)

lemma word32_less_succ: "(x :: 32 word) \<noteq> uint32_max \<Longrightarrow> x < x + 1"
proof -
  assume "x \<noteq> uint32_max"
  then have "x \<noteq> - 1" unfolding uint32_max_minus_one .
  then have "1 + x \<noteq> 0" by (metis add_eq_0_iff)
  then have "unat (1 + x) = Suc (unat x)" by (rule unatSuc)
  then show ?thesis by (simp add: word_less_nat_alt add.commute)
qed

text \<open>
  C6, as stated, says that the image count is within \<open>[minImageCount, maxImageCount]\<close>
  whenever \<open>maxImageCount\<close> is not zero. For capabilities with a minimum of 5 and a
  maximum of 3 the count is 3, below the minimum.
\<close>

theorem Create_imageCount_range_counterexample:
  "maxImageCount (sample_capabilities\<lparr>minImageCount := 5, maxImageCount := 3\<rparr>) \<noteq> 0
   \<and> Create_imageCount (sample_capabilities\<lparr>minImageCount := 5, maxImageCount := 3\<rparr>) = 3
   \<and> \<not> (minImageCount (sample_capabilities\<lparr>minImageCount := 5, maxImageCount := 3\<rparr>)
          \<le> Create_imageCount (sample_capabilities\<lparr>minImageCount := 5, maxImageCount := 3\<rparr>))
   \<and> maxImageCount (sample_capabilities\<lparr>minImageCount := uint32_max, maxImageCount := uint32_max\<rparr>) \<noteq> 0
   \<and> Create_imageCount (sample_capabilities\<lparr>minImageCount := uint32_max, maxImageCount := uint32_max\<rparr>) = 0
   \<and> \<not> (minImageCount (sample_capabilities\<lparr>minImageCount := uint32_max, maxImageCount := uint32_max\<rparr>)
          \<le> Create_imageCount
               (sample_capabilities\<lparr>minImageCount := uint32_max, maxImageCount := uint32_max\<rparr>))"
  by (simp add: Create_imageCount_def uint32_max_def)

text \<open>
  C6, amended: the image count is \<open>minImageCount + 1\<close> (in 32 bits), reduced to
  \<open>maxImageCount\<close> exactly when \<open>maxImageCount\<close> is not zero and \<open>minImageCount + 1\<close>
  exceeds it; a minimum of 2 with a maximum of 3 gives 3, and with a maximum of 0 gives 3;
  the count is within \<open>[minImageCount, maxImageCount]\<close> when \<open>maxImageCount\<close> is not
  zero, \<open>minImageCount \<le> maxImageCount\<close> and \<open>minImageCount\<close> is not the largest
  32-bit value.
\<close>

theorem Create_imageCount_spec:
  "Create_imageCount caps =
      (if maxImageCount caps \<noteq> 0 \<and> maxImageCount caps < minImageCount caps + 1
       then maxImageCount caps else minImageCount caps + 1)
   \<and> Create_imageCount (caps\<lparr>minImageCount := 2, maxImageCount := 3\<rparr>) = 3
   \<and> Create_imageCount (caps\<lparr>minImageCount := 2, maxImageCount := 0\<rparr>) = 3
   \<and> (maxImageCount caps \<noteq> 0 \<and> minImageCount caps \<le> maxImageCount caps
        \<and> minImageCount caps \<noteq> uint32_max
      \<longrightarrow> minImageCount caps \<le> Create_imageCount caps \<and> Create_imageCount caps \<le> maxImageCount caps)"
proof -
  have a: "Create_imageCount caps =
      (if maxImageCount caps \<noteq> 0 \<and> maxImageCount caps < minImageCount caps + 1
       then maxImageCount caps else minImageCount caps + 1)"
    by (simp add: Create_imageCount_def Let_def word_gt_0)
  have b: "Create_imageCount (caps\<lparr>minImageCount := 2, maxImageCount := 3\<rparr>) = 3"
    by (simp add: Create_imageCount_def)
  have c: "Create_imageCount (caps\<lparr>minImageCount := 2, maxImageCount := 0\<rparr>) = 3"
    by (simp add: Create_imageCount_def)
  have d: "minImageCount caps \<le> Create_imageCount caps \<and> Create_imageCount caps \<le> maxImageCount caps"
    if "maxImageCount caps \<noteq> 0" "minImageCount caps \<le> maxImageCount caps" "minImageCount caps \<noteq> uint32_max"
  proof -
    have lt: "minImageCount caps < minImageCount caps + 1"
      using that(3) by (rule word32_less_succ)
    show ?thesis using that(1,2) lt unfolding a by auto
  qed
  from a b c d show ?thesis by blast
qed

theorem Create_imageCount_spec_witness:
  "maxImageCount sample_capabilities \<noteq> 0 \<and> minImageCount sample_capabilities \<le> maxImageCount sample_capabilities
   \<and> minImageCount sample_capabilities \<noteq> uint32_max
   \<and> Create_imageCount sample_capabilities = 3
   \<and> minImageCount sample_capabilities \<le> Create_imageCount sample_capabilities \<and> Create_imageCount sample_capabilities \<le> maxImageCount sample_capabilities"
proof -
  have h: "maxImageCount sample_capabilities \<noteq> 0 \<and> minImageCount sample_capabilities \<le> maxImageCount sample_capabilities
             \<and> minImageCount sample_capabilities \<noteq> uint32_max"
    by (simp add: sample_capabilities_def uint32_max_def)
  have v: "Create_imageCount sample_capabilities = 3"
    by (simp add: sample_capabilities_def Create_imageCount_def)
  from Create_imageCount_spec [of sample_capabilities] h v show ?thesis by blast
qed

section \<open>The extent\<close>

lemma static_cast_uint32_nonneg: "0 \<le> sint w \<Longrightarrow> uint (static_cast_uint32 w) = sint w"
proof -
  assume nn: "0 \<le> sint w"
  have "sint w < 2 ^ (LENGTH(32) - Suc 0)" by (rule sint_less)
  then have "sint w < 2 ^ 32" by simp
  with nn have "take_bit 32 (sint w) = sint w" by (simp add: take_bit_int_eq_self)
  then show ?thesis by (simp add: static_cast_uint32_def uint_sint)
qed

lemma uint_clamp:
  "uint (max lo (min hi x)) = max (uint lo) (min (uint hi) (uint x))" for lo hi x :: uint32_t
  by (auto simp: max_def min_def word_le_def)

text \<open>
  C5, as stated, says that on the second path the result is the window's dimensions
  clamped into the range from \<open>minImageExtent\<close> to \<open>maxImageExtent\<close>. A window that
  reports the size -1 by -5 gets the upper bounds 1024 by 512, where clamping -1 and -5
  into 64..1024 and 64..512 gives 64 by 64: the conversion to \<^verbatim>\<open>uint32_t\<close> turns a
  negative dimension into a large one. With a minimum of 100 by 600 above a maximum of 50
  by 512, the result 100 by 600 is not below the maximum.
\<close>

theorem ChooseSwapExtent_clamp_counterexample:
  "width (currentExtent sample_capabilities) = uint32_max
   \<and> glfwGetWindowSize (window_platform (- 1) (- 5)) [] 10 = (- 1, - 5)
   \<and> sint (- 1 :: c_int) = - 1 \<and> sint (- 5 :: c_int) = - 5
   \<and> fst (ChooseSwapExtent (window_platform (- 1) (- 5)) sample_capabilities 10 [])
        = \<lparr>width = 1024, height = 512\<rparr>
   \<and> uint (width (fst (ChooseSwapExtent (window_platform (- 1) (- 5)) sample_capabilities 10 [])))
        \<noteq> max (uint (width (minImageExtent sample_capabilities)))
              (min (uint (width (maxImageExtent sample_capabilities))) (sint (- 1 :: c_int)))
   \<and> width (currentExtent
        (sample_capabilities\<lparr>minImageExtent := \<lparr>width = 100, height = 600\<rparr>,
                             maxImageExtent := \<lparr>width = 50, height = 512\<rparr>\<rparr>)) = uint32_max
   \<and> fst (ChooseSwapExtent (window_platform 80 550)
        (sample_capabilities\<lparr>minImageExtent := \<lparr>width = 100, height = 600\<rparr>,
                             maxImageExtent := \<lparr>width = 50, height = 512\<rparr>\<rparr>) 10 [])
        = \<lparr>width = 100, height = 600\<rparr>
   \<and> \<not> (width (fst (ChooseSwapExtent (window_platform 80 550)
        (sample_capabilities\<lparr>minImageExtent := \<lparr>width = 100, height = 600\<rparr>,
                             maxImageExtent := \<lparr>width = 50, height = 512\<rparr>\<rparr>) 10 []))
          \<le> width (maxImageExtent
        (sample_capabilities\<lparr>minImageExtent := \<lparr>width = 100, height = 600\<rparr>,
                             maxImageExtent := \<lparr>width = 50, height = 512\<rparr>\<rparr>)))"
  by (simp add: ChooseSwapExtent_def Let_def window_platform_def sample_platform_def
        sample_capabilities_def static_cast_uint32_def uint32_max_def)

text \<open>
  C5, amended: when the width of \<open>currentExtent\<close> is not the largest 32-bit value,
  \<^verbatim>\<open>ChooseSwapExtent\<close> returns \<open>currentExtent\<close> whatever the window says (and does not
  ask the window). Otherwise it returns, on each axis on its own, the maximum of the
  \<open>minImageExtent\<close> bound and of the minimum of the \<open>maxImageExtent\<close> bound and the
  window's dimension converted to \<^verbatim>\<open>uint32_t\<close>. When the lower bound of an axis is not
  above its upper bound, that is the converted dimension clamped into the range: within
  the bounds, kept if in the range, the lower bound if below, the upper bound if above.
  When moreover the window's dimension is not negative, the conversion keeps it, and the
  result is the window's dimension clamped into the range.
\<close>

theorem ChooseSwapExtent_spec:
  "(width (currentExtent caps) \<noteq> uint32_max \<longrightarrow>
      ChooseSwapExtent vk caps window tr = (currentExtent caps, tr))
   \<and> (width (currentExtent caps) = uint32_max \<longrightarrow>
        (let w = static_cast_uint32 (fst (glfwGetWindowSize vk tr window));
             h = static_cast_uint32 (snd (glfwGetWindowSize vk tr window));
             lo = minImageExtent caps; hi = maxImageExtent caps;
             e = fst (ChooseSwapExtent vk caps window tr)
         in width e = max (width lo) (min (width hi) w)
          \<and> height e = max (height lo) (min (height hi) h)
          \<and> (width lo \<le> width hi \<longrightarrow>
               width lo \<le> width e \<and> width e \<le> width hi
               \<and> (width lo \<le> w \<and> w \<le> width hi \<longrightarrow> width e = w)
               \<and> (w < width lo \<longrightarrow> width e = width lo)
               \<and> (width hi < w \<longrightarrow> width e = width hi))
          \<and> (height lo \<le> height hi \<longrightarrow>
               height lo \<le> height e \<and> height e \<le> height hi
               \<and> (height lo \<le> h \<and> h \<le> height hi \<longrightarrow> height e = h)
               \<and> (h < height lo \<longrightarrow> height e = height lo)
               \<and> (height hi < h \<longrightarrow> height e = height hi))
          \<and> (0 \<le> sint (fst (glfwGetWindowSize vk tr window)) \<longrightarrow>
               uint w = sint (fst (glfwGetWindowSize vk tr window))
               \<and> uint (width e) = max (uint (width lo))
                    (min (uint (width hi)) (sint (fst (glfwGetWindowSize vk tr window)))))
          \<and> (0 \<le> sint (snd (glfwGetWindowSize vk tr window)) \<longrightarrow>
               uint h = sint (snd (glfwGetWindowSize vk tr window))
               \<and> uint (height e) = max (uint (height lo))
                    (min (uint (height hi)) (sint (snd (glfwGetWindowSize vk tr window)))))))"
proof -
  have a: "width (currentExtent caps) \<noteq> uint32_max \<Longrightarrow>
      ChooseSwapExtent vk caps window tr = (currentExtent caps, tr)"
    by (simp add: ChooseSwapExtent_def)
  have b: "width (fst (ChooseSwapExtent vk caps window tr)) =
             max (width (minImageExtent caps)) (min (width (maxImageExtent caps))
               (static_cast_uint32 (fst (glfwGetWindowSize vk tr window))))"
          "height (fst (ChooseSwapExtent vk caps window tr)) =
             max (height (minImageExtent caps)) (min (height (maxImageExtent caps))
               (static_cast_uint32 (snd (glfwGetWindowSize vk tr window))))"
    if "width (currentExtent caps) = uint32_max"
    using that by (simp_all add: ChooseSwapExtent_def Let_def split_beta)
  have c: "lo \<le> max lo (min hi x) \<and> max lo (min hi x) \<le> hi
           \<and> (lo \<le> x \<and> x \<le> hi \<longrightarrow> max lo (min hi x) = x)
           \<and> (x < lo \<longrightarrow> max lo (min hi x) = lo)
           \<and> (hi < x \<longrightarrow> max lo (min hi x) = hi)"
    if "lo \<le> hi" for lo hi x :: uint32_t
    using that by (auto simp: max_def min_def)
  have d: "uint (max lo (min hi (static_cast_uint32 i))) = max (uint lo) (min (uint hi) (sint i))"
    if "0 \<le> sint i" for lo hi :: uint32_t and i :: c_int
    using static_cast_uint32_nonneg [OF that] by (simp only: uint_clamp)
  show ?thesis
    using a b c d static_cast_uint32_nonneg by (simp add: Let_def)
qed

theorem ChooseSwapExtent_spec_witness:
  "width (currentExtent (sample_capabilities\<lparr>currentExtent := \<lparr>width = 1920, height = 1080\<rparr>\<rparr>)) \<noteq> uint32_max
   \<and> ChooseSwapExtent (window_platform 2000 32) (sample_capabilities\<lparr>currentExtent := \<lparr>width = 1920, height = 1080\<rparr>\<rparr>) 10 []
        = (\<lparr>width = 1920, height = 1080\<rparr>, [])
   \<and> width (currentExtent sample_capabilities) = uint32_max
   \<and> fst (ChooseSwapExtent (window_platform 2000 32) sample_capabilities 10 []) = \<lparr>width = 1024, height = 64\<rparr>
   \<and> fst (ChooseSwapExtent (window_platform 800 500) sample_capabilities 10 []) = \<lparr>width = 800, height = 500\<rparr>"
proof -
  have h1: "width (currentExtent (sample_capabilities\<lparr>currentExtent := \<lparr>width = 1920, height = 1080\<rparr>\<rparr>)) \<noteq> uint32_max"
    by (simp add: uint32_max_def)
  have h2: "width (currentExtent sample_capabilities) = uint32_max"
    by (simp add: sample_capabilities_def)
  have r1: "ChooseSwapExtent (window_platform 2000 32) (sample_capabilities\<lparr>currentExtent := \<lparr>width = 1920, height = 1080\<rparr>\<rparr>) 10 []
        = (\<lparr>width = 1920, height = 1080\<rparr>, [])"
    using ChooseSwapExtent_spec [of "sample_capabilities\<lparr>currentExtent := \<lparr>width = 1920, height = 1080\<rparr>\<rparr>" "window_platform 2000 32" 10 "[]"] h1
    by simp
  have r2: "fst (ChooseSwapExtent (window_platform 2000 32) sample_capabilities 10 []) = \<lparr>width = 1024, height = 64\<rparr>"
    using ChooseSwapExtent_spec [of sample_capabilities "window_platform 2000 32" 10 "[]"] h2
    by (simp add: Let_def window_platform_def sample_platform_def sample_capabilities_def static_cast_uint32_def)
  have r3: "fst (ChooseSwapExtent (window_platform 800 500) sample_capabilities 10 []) = \<lparr>width = 800, height = 500\<rparr>"
    using ChooseSwapExtent_spec [of sample_capabilities "window_platform 800 500" 10 "[]"] h2
    by (simp add: Let_def window_platform_def sample_platform_def sample_capabilities_def static_cast_uint32_def)
  from h1 h2 r1 r2 r3 show ?thesis by blast
qed


section \<open>The empty format sequence\<close>

lemma QuerySwapChainSupport_no_formats:
  "formats_probe_count vk device surface tr = 0 \<Longrightarrow>
     formats (fst (QuerySwapChainSupport vk device surface tr)) = []"
  by (simp add: formats_probe_count_def QuerySwapChainSupport_def Let_def split_beta)

lemma ChooseSwapSurfaceFormat_nonempty:
  "fs \<noteq> [] \<Longrightarrow> \<exists>f. ChooseSwapSurfaceFormat fs = Inr f"
  by (cases fs) (auto simp: ChooseSwapSurfaceFormat_def split: option.splits)

text \<open>
  C9: \<^verbatim>\<open>ChooseSwapSurfaceFormat\<close> is partial. On the empty sequence it falls through
  to reading element 0 of it; on a non-empty sequence it returns a format. The empty
  sequence does reach it: when the platform answers a count of zero to the probe for the
  formats, \<^verbatim>\<open>QuerySwapChainSupport\<close> leaves the format vector empty, and \<^verbatim>\<open>Create\<close>
  runs into the read out of range.
\<close>

theorem ChooseSwapSurfaceFormat_partial:
  "ChooseSwapSurfaceFormat [] = Inl IndexOutOfRange
   \<and> (fs \<noteq> [] \<longrightarrow> (\<exists>f. ChooseSwapSurfaceFormat fs = Inr f))
   \<and> (formats_probe_count vk device surface tr = 0 \<longrightarrow>
        formats (fst (QuerySwapChainSupport vk device surface tr)) = []
        \<and> fst (Create vk logicalDevice device surface window s tr) = Inl IndexOutOfRange)"
proof -
  have a: "ChooseSwapSurfaceFormat [] = Inl IndexOutOfRange"
    by (simp add: ChooseSwapSurfaceFormat_def)
  have c: "fst (Create vk logicalDevice device surface window s tr) = Inl IndexOutOfRange"
    if "formats_probe_count vk device surface tr = 0"
    using QuerySwapChainSupport_no_formats [OF that] a
    by (simp add: Create_def Let_def split_beta)
  from a c ChooseSwapSurfaceFormat_nonempty QuerySwapChainSupport_no_formats show ?thesis
    by blast
qed

theorem ChooseSwapSurfaceFormat_partial_witness:
  "[\<lparr>format = 37, colorSpace = 0\<rparr>] \<noteq> []
   \<and> (\<exists>f. ChooseSwapSurfaceFormat [\<lparr>format = 37, colorSpace = 0\<rparr>] = Inr f)
   \<and> formats_probe_count no_formats_platform 8 9 [] = 0
   \<and> formats (fst (QuerySwapChainSupport no_formats_platform 8 9 [])) = []
   \<and> fst (Create no_formats_platform 7 8 9 10 Swapchain_new []) = Inl IndexOutOfRange"
proof -
  have h1: "[\<lparr>format = 37, colorSpace = 0\<rparr>] \<noteq> []" by simp
  have h2: "formats_probe_count no_formats_platform 8 9 [] = 0"
    by (simp add: formats_probe_count_def no_formats_platform_def)
  from h1 h2 ChooseSwapSurfaceFormat_partial [of "[\<lparr>format = 37, colorSpace = 0\<rparr>]" no_formats_platform 8 9 "[]" 7 10 Swapchain_new]
  show ?thesis by blast
qed

section \<open>Teardown\<close>

lemma CleanupFrameBuffers_loop_calls:
  "\<exists>evs. CleanupFrameBuffers_loop vk fbs tr = tr @ evs
         \<and> map teardown_call_of evs = map DestroyFramebuffer fbs"
proof (induction fbs arbitrary: tr)
  case Nil
  then show ?case by simp
next
  case (Cons fb fbs)
  from Cons [of "tr @ [EvDestroyFramebuffer (GetVkDevice vk tr) fb]"]
  obtain evs where
    "CleanupFrameBuffers_loop vk fbs (tr @ [EvDestroyFramebuffer (GetVkDevice vk tr) fb])
       = (tr @ [EvDestroyFramebuffer (GetVkDevice vk tr) fb]) @ evs"
    "map teardown_call_of evs = map DestroyFramebuffer fbs"
    by blast
  then have "CleanupFrameBuffers_loop vk (fb # fbs) tr
                = tr @ (EvDestroyFramebuffer (GetVkDevice vk tr) fb # evs)
             \<and> map teardown_call_of (EvDestroyFramebuffer (GetVkDevice vk tr) fb # evs)
                = map DestroyFramebuffer (fb # fbs)"
    by simp
  then show ?case by (rule exI)
qed

lemma Cleanup_loop_calls:
  "\<exists>evs. Cleanup_loop vk vs tr = tr @ evs
         \<and> map teardown_call_of evs = map DestroyImageView vs"
proof (induction vs arbitrary: tr)
  case Nil
  then show ?case by simp
next
  case (Cons v vs)
  from Cons [of "tr @ [EvDestroyImageView (GetVkDevice vk tr) v]"]
  obtain evs where
    "Cleanup_loop vk vs (tr @ [EvDestroyImageView (GetVkDevice vk tr) v])
       = (tr @ [EvDestroyImageView (GetVkDevice vk tr) v]) @ evs"
    "map teardown_call_of evs = map DestroyImageView vs"
    by blast
  then have "Cleanup_loop vk (v # vs) tr
                = tr @ (EvDestroyImageView (GetVkDevice vk tr) v # evs)
             \<and> map teardown_call_of (EvDestroyImageView (GetVkDevice vk tr) v # evs)
                = map DestroyImageView (v # vs)"
    by simp
  then show ?case by (rule exI)
qed

lemma CleanupFrameBuffers_calls:
  "\<exists>evs. snd (CleanupFrameBuffers vk s tr) = tr @ evs
         \<and> map teardown_call_of evs = WaitIdle # map DestroyFramebuffer (m_swapChainFramebuffers s)"
proof -
  let ?w = "EvDeviceWaitIdle (GetVkDevice vk tr) (vkDeviceWaitIdle vk tr (GetVkDevice vk tr))"
  from CleanupFrameBuffers_loop_calls [of vk "m_swapChainFramebuffers s" "tr @ [?w]"]
  obtain evs where
    "CleanupFrameBuffers_loop vk (m_swapChainFramebuffers s) (tr @ [?w]) = (tr @ [?w]) @ evs"
    "map teardown_call_of evs = map DestroyFramebuffer (m_swapChainFramebuffers s)"
    by blast
  then have "snd (CleanupFrameBuffers vk s tr) = tr @ (?w # evs)
     \<and> map teardown_call_of (?w # evs) = WaitIdle # map DestroyFramebuffer (m_swapChainFramebuffers s)"
    by (simp add: CleanupFrameBuffers_def Let_def)
  then show ?thesis by (rule exI [where x = "?w # evs"])
qed

lemma Cleanup_calls:
  "\<exists>evs. snd (Cleanup vk s tr) = tr @ evs
         \<and> map teardown_call_of evs =
             WaitIdle # map DestroyImageView (m_swapChainImageViews s) @ [DestroySwapchain (m_swapChain s)]"
proof -
  let ?w = "EvDeviceWaitIdle (GetVkDevice vk tr) (vkDeviceWaitIdle vk tr (GetVkDevice vk tr))"
  from Cleanup_loop_calls [of vk "m_swapChainImageViews s" "tr @ [?w]"]
  obtain evs where e:
    "Cleanup_loop vk (m_swapChainImageViews s) (tr @ [?w]) = (tr @ [?w]) @ evs"
    "map teardown_call_of evs = map DestroyImageView (m_swapChainImageViews s)"
    by blast
  let ?d = "EvDestroySwapchain (GetVkDevice vk ((tr @ [?w]) @ evs)) (m_swapChain s)"
  from e have "snd (Cleanup vk s tr) = tr @ (?w # evs @ [?d])
     \<and> map teardown_call_of (?w # evs @ [?d]) =
         WaitIdle # map DestroyImageView (m_swapChainImageViews s) @ [DestroySwapchain (m_swapChain s)]"
    by (simp add: Cleanup_def Let_def)
  then show ?thesis by (rule exI [where x = "?w # evs @ [?d]"])
qed

lemma teardown_state_unchanged:
  "fst (CleanupFrameBuffers vk s tr) = s" "fst (Cleanup vk s tr) = s"
  by (simp_all add: CleanupFrameBuffers_def Cleanup_def Let_def)

lemma wait_before_every_destroy_WaitIdle: "wait_before_every_destroy (WaitIdle # cs)"
  unfolding wait_before_every_destroy_def
proof (intro allI impI)
  fix j
  assume "j < length (WaitIdle # cs)" "is_destroy ((WaitIdle # cs) ! j)"
  then have "0 < j" by (cases j) auto
  then show "\<exists>i<j. (WaitIdle # cs) ! i = WaitIdle" by (intro exI [of _ 0]) simp
qed

lemma CleanupFrameBuffers_new_calls:
  "take (length tr) (snd (CleanupFrameBuffers vk s tr)) = tr
   \<and> map teardown_call_of (drop (length tr) (snd (CleanupFrameBuffers vk s tr)))
       = WaitIdle # map DestroyFramebuffer (m_swapChainFramebuffers s)"
proof -
  from CleanupFrameBuffers_calls [of vk s tr] show ?thesis
    by (elim exE conjE) simp
qed

lemma Cleanup_new_calls:
  "take (length tr) (snd (Cleanup vk s tr)) = tr
   \<and> map teardown_call_of (drop (length tr) (snd (Cleanup vk s tr)))
       = WaitIdle # map DestroyImageView (m_swapChainImageViews s) @ [DestroySwapchain (m_swapChain s)]"
proof -
  from Cleanup_calls [of vk s tr] show ?thesis
    by (elim exE conjE) simp
qed

text \<open>
  C1: the two tiers of teardown. \<^verbatim>\<open>CleanupFrameBuffers\<close> waits for the device to be
  idle and then destroys each framebuffer, in order; it leaves the object as it was, so
  neither the image views nor the chain handle change. \<^verbatim>\<open>Cleanup\<close> waits for the
  device to be idle, destroys each image view, in order, and last destroys the chain; the
  object is left as it was. In both, every destroying call has a device-idle wait
  before it.
\<close>

theorem teardown_tiers:
  "fst (CleanupFrameBuffers vk s tr) = s
   \<and> take (length tr) (snd (CleanupFrameBuffers vk s tr)) = tr
   \<and> map teardown_call_of (drop (length tr) (snd (CleanupFrameBuffers vk s tr)))
       = WaitIdle # map DestroyFramebuffer (m_swapChainFramebuffers s)
   \<and> fst (Cleanup vk s tr) = s
   \<and> take (length tr) (snd (Cleanup vk s tr)) = tr
   \<and> map teardown_call_of (drop (length tr) (snd (Cleanup vk s tr)))
       = WaitIdle # map DestroyImageView (m_swapChainImageViews s) @ [DestroySwapchain (m_swapChain s)]
   \<and> wait_before_every_destroy
        (map teardown_call_of (drop (length tr) (snd (CleanupFrameBuffers vk s tr))))
   \<and> wait_before_every_destroy (map teardown_call_of (drop (length tr) (snd (Cleanup vk s tr))))"
proof -
  note f = CleanupFrameBuffers_new_calls [of tr vk s]
  note c = Cleanup_new_calls [of tr vk s]
  have wf: "wait_before_every_destroy
        (map teardown_call_of (drop (length tr) (snd (CleanupFrameBuffers vk s tr))))"
    using f by (simp only: wait_before_every_destroy_WaitIdle)
  have wc: "wait_before_every_destroy (map teardown_call_of (drop (length tr) (snd (Cleanup vk s tr))))"
    using c by (simp only: wait_before_every_destroy_WaitIdle)
  from f c wf wc teardown_state_unchanged [of vk s tr] show ?thesis
    by blast
qed

theorem teardown_tiers_witness:
  "map teardown_call_of (snd (CleanupFrameBuffers sample_platform sample_swapchain []))
      = [WaitIdle, DestroyFramebuffer 1003, DestroyFramebuffer 1103]
   \<and> map teardown_call_of (snd (Cleanup sample_platform sample_swapchain []))
      = [WaitIdle, DestroyImageView 802, DestroyImageView 902, DestroySwapchain 501]
   \<and> is_destroy ([WaitIdle, DestroyFramebuffer 1003, DestroyFramebuffer 1103] ! 1)
   \<and> wait_before_every_destroy [WaitIdle, DestroyFramebuffer 1003, DestroyFramebuffer 1103]
   \<and> wait_before_every_destroy
        [WaitIdle, DestroyImageView 802, DestroyImageView 902, DestroySwapchain 501]"
proof -
  have fields: "m_swapChainFramebuffers sample_swapchain = [1003, 1103]"
    "m_swapChainImageViews sample_swapchain = [802, 902]"
    "m_swapChain sample_swapchain = 501"
    by (simp_all add: sample_swapchain_def)
  have d: "is_destroy ([WaitIdle, DestroyFramebuffer 1003, DestroyFramebuffer 1103] ! 1)"
    by simp
  note t = teardown_tiers [of sample_platform sample_swapchain "[]", simplified list.size drop_0]
  have a: "map teardown_call_of (snd (CleanupFrameBuffers sample_platform sample_swapchain []))
      = [WaitIdle, DestroyFramebuffer 1003, DestroyFramebuffer 1103]"
    using t by (simp add: fields)
  have b: "map teardown_call_of (snd (Cleanup sample_platform sample_swapchain []))
      = [WaitIdle, DestroyImageView 802, DestroyImageView 902, DestroySwapchain 501]"
    using t by (simp add: fields)
  from t have "wait_before_every_destroy
      (map teardown_call_of (snd (CleanupFrameBuffers sample_platform sample_swapchain [])))"
    by blast
  then have wa: "wait_before_every_destroy [WaitIdle, DestroyFramebuffer 1003, DestroyFramebuffer 1103]"
    by (simp only: a)
  from t have "wait_before_every_destroy
      (map teardown_call_of (snd (Cleanup sample_platform sample_swapchain [])))"
    by blast
  then have wb: "wait_before_every_destroy
      [WaitIdle, DestroyImageView 802, DestroyImageView 902, DestroySwapchain 501]"
    by (simp only: b)
  from a b d wa wb show ?thesis by (intro conjI)
qed

lemma framebuffers_torn_down_first_append:
  assumes "\<forall>c \<in> set xs. \<not> is_chain_tier_destroy c" "\<forall>c \<in> set ys. \<not> is_framebuffer_destroy c"
  shows "framebuffers_torn_down_first (xs @ ys)"
  unfolding framebuffers_torn_down_first_def
proof (intro allI impI)
  fix j i
  assume j: "j < length (xs @ ys)" and i: "i < j" and t: "is_chain_tier_destroy ((xs @ ys) ! i)"
  have "\<not> i < length xs"
  proof
    assume "i < length xs"
    then have "(xs @ ys) ! i \<in> set xs" by (simp add: nth_append)
    with assms(1) t show False by blast
  qed
  with i have "\<not> j < length xs" by simp
  with j have "(xs @ ys) ! j \<in> set ys" by (simp add: nth_append)
  with assms(2) show "\<not> is_framebuffer_destroy ((xs @ ys) ! j)" by blast
qed

lemma Swapchain_destructor_calls:
  "\<exists>evs evs'. snd (Swapchain_destructor vk s tr) = tr @ evs @ evs'
      \<and> map teardown_call_of evs = WaitIdle # map DestroyFramebuffer (m_swapChainFramebuffers s)
      \<and> map teardown_call_of evs' =
           WaitIdle # map DestroyImageView (m_swapChainImageViews s) @ [DestroySwapchain (m_swapChain s)]"
proof -
  from CleanupFrameBuffers_calls [of vk s tr]
  obtain evs where f: "snd (CleanupFrameBuffers vk s tr) = tr @ evs"
     "map teardown_call_of evs = WaitIdle # map DestroyFramebuffer (m_swapChainFramebuffers s)"
    by (elim exE conjE)
  from Cleanup_calls [of vk s "tr @ evs"]
  obtain evs' where c: "snd (Cleanup vk s (tr @ evs)) = (tr @ evs) @ evs'"
     "map teardown_call_of evs' =
        WaitIdle # map DestroyImageView (m_swapChainImageViews s) @ [DestroySwapchain (m_swapChain s)]"
    by (elim exE conjE)
  have "Swapchain_destructor vk s tr = Cleanup vk s (snd (CleanupFrameBuffers vk s tr))"
    by (simp add: Swapchain_destructor_def split_beta teardown_state_unchanged)
  then have "snd (Swapchain_destructor vk s tr) = tr @ evs @ evs'"
    by (simp only: f(1) c(1) append_assoc)
  with f(2) c(2) show ?thesis by (intro exI conjI)
qed

text \<open>
  C10: the destructor runs \<^verbatim>\<open>CleanupFrameBuffers\<close> and then \<^verbatim>\<open>Cleanup\<close>. Its calls
  are: a wait, the destruction of every framebuffer, a wait, the destruction of every
  image view, the destruction of the chain. No framebuffer is destroyed after an image
  view or the chain has been.
\<close>

theorem Swapchain_destructor_order:
  "take (length tr) (snd (Swapchain_destructor vk s tr)) = tr
   \<and> map teardown_call_of (drop (length tr) (snd (Swapchain_destructor vk s tr)))
       = (WaitIdle # map DestroyFramebuffer (m_swapChainFramebuffers s))
         @ (WaitIdle # map DestroyImageView (m_swapChainImageViews s) @ [DestroySwapchain (m_swapChain s)])
   \<and> framebuffers_torn_down_first
        (map teardown_call_of (drop (length tr) (snd (Swapchain_destructor vk s tr))))"
proof -
  from Swapchain_destructor_calls [of vk s tr]
  obtain evs evs' where d: "snd (Swapchain_destructor vk s tr) = tr @ evs @ evs'"
    and f: "map teardown_call_of evs = WaitIdle # map DestroyFramebuffer (m_swapChainFramebuffers s)"
    and c: "map teardown_call_of evs' =
           WaitIdle # map DestroyImageView (m_swapChainImageViews s) @ [DestroySwapchain (m_swapChain s)]"
    by (elim exE conjE)
  have t: "take (length tr) (snd (Swapchain_destructor vk s tr)) = tr"
    by (simp add: d)
  have n: "drop (length tr) (snd (Swapchain_destructor vk s tr)) = evs @ evs'"
    by (simp add: d)
  have m: "map teardown_call_of (drop (length tr) (snd (Swapchain_destructor vk s tr)))
       = (WaitIdle # map DestroyFramebuffer (m_swapChainFramebuffers s))
         @ (WaitIdle # map DestroyImageView (m_swapChainImageViews s) @ [DestroySwapchain (m_swapChain s)])"
    by (simp only: n map_append f c)
  have x: "\<forall>c \<in> set (WaitIdle # map DestroyFramebuffer (m_swapChainFramebuffers s)).
             \<not> is_chain_tier_destroy c"
    by auto
  have y: "\<forall>c \<in> set (WaitIdle # map DestroyImageView (m_swapChainImageViews s)
                        @ [DestroySwapchain (m_swapChain s)]).
             \<not> is_framebuffer_destroy c"
    by auto
  have o: "framebuffers_torn_down_first
        (map teardown_call_of (drop (length tr) (snd (Swapchain_destructor vk s tr))))"
    unfolding m using x y by (rule framebuffers_torn_down_first_append)
  from t m o show ?thesis by (intro conjI)
qed


theorem Swapchain_destructor_order_witness:
  "map teardown_call_of (snd (Swapchain_destructor sample_platform sample_swapchain []))
      = [WaitIdle, DestroyFramebuffer 1003, DestroyFramebuffer 1103,
         WaitIdle, DestroyImageView 802, DestroyImageView 902, DestroySwapchain 501]
   \<and> is_chain_tier_destroy
        ([WaitIdle, DestroyFramebuffer 1003, DestroyFramebuffer 1103,
          WaitIdle, DestroyImageView 802, DestroyImageView 902, DestroySwapchain 501] ! 4)
   \<and> framebuffers_torn_down_first
        [WaitIdle, DestroyFramebuffer 1003, DestroyFramebuffer 1103,
         WaitIdle, DestroyImageView 802, DestroyImageView 902, DestroySwapchain 501]"
proof -
  have fields: "m_swapChainFramebuffers sample_swapchain = [1003, 1103]"
    "m_swapChainImageViews sample_swapchain = [802, 902]"
    "m_swapChain sample_swapchain = 501"
    by (simp_all add: sample_swapchain_def)
  have d: "is_chain_tier_destroy
        ([WaitIdle, DestroyFramebuffer 1003, DestroyFramebuffer 1103,
          WaitIdle, DestroyImageView 802, DestroyImageView 902, DestroySwapchain 501] ! 4)"
    by simp
  note t = Swapchain_destructor_order [of "[]" sample_platform sample_swapchain,
              simplified list.size drop_0]
  have a: "map teardown_call_of (snd (Swapchain_destructor sample_platform sample_swapchain []))
      = [WaitIdle, DestroyFramebuffer 1003, DestroyFramebuffer 1103,
         WaitIdle, DestroyImageView 802, DestroyImageView 902, DestroySwapchain 501]"
    using t by (simp add: fields)
  from t have "framebuffers_torn_down_first
      (map teardown_call_of (snd (Swapchain_destructor sample_platform sample_swapchain [])))"
    by blast
  then have o: "framebuffers_torn_down_first
        [WaitIdle, DestroyFramebuffer 1003, DestroyFramebuffer 1103,
         WaitIdle, DestroyImageView 802, DestroyImageView 902, DestroySwapchain 501]"
    by (simp only: a)
  from a d o show ?thesis by (intro conjI)
qed

section \<open>The calls and the results of the creation loops\<close>

lemma failures_end_operation_Nil: "failures_end_operation sel res []"
  by (simp add: failures_end_operation_def)

lemma failures_end_operation_Cons:
  "failures_end_operation sel res (e # evs) =
     ((case sel e of None \<Rightarrow> True
       | Some r \<Rightarrow> r = VK_SUCCESS \<or> (evs = [] \<and> res = Inl (VulkanError r)))
      \<and> failures_end_operation sel res evs)"
  by (simp add: failures_end_operation_def All_less_Suc2 cong: option.case_cong)

lemma failures_end_operation_quiet_prefix:
  "\<forall>e \<in> set xs. sel e = None \<or> sel e = Some VK_SUCCESS \<Longrightarrow>
     failures_end_operation sel res (xs @ ys) = failures_end_operation sel res ys"
  by (induction xs) (auto simp: failures_end_operation_Cons)

lemma CreateImageViews_loop_unfold:
  "CreateImageViews_loop vk d i s tr =
     (if i < length (m_swapChainImages s)
      then (if fst (view_answer vk d i s tr) = VK_SUCCESS
            then CreateImageViews_loop vk d (Suc i)
                   (s\<lparr>m_swapChainImageViews := (m_swapChainImageViews s)[i := snd (view_answer vk d i s tr)]\<rparr>)
                   (tr @ [view_event vk d i s tr])
            else (Inl (VulkanError (fst (view_answer vk d i s tr))), tr @ [view_event vk d i s tr]))
      else (Inr s, tr))"
  by (subst CreateImageViews_loop.simps)
     (simp add: Let_def ErrorCheck_def view_answer_def view_event_def)

lemma checked_result_view_event [simp]:
  "checked_result (view_event vk d i s tr) = Some (fst (view_answer vk d i s tr))"
  "is_view_creation (view_event vk d i s tr)"
  by (simp_all add: view_event_def)

lemma CreateImageViews_loop_calls:
  "\<exists>evs. snd (CreateImageViews_loop vk d i s tr) = tr @ evs
      \<and> (\<forall>e \<in> set evs. is_view_creation e)
      \<and> failures_end_operation checked_result (fst (CreateImageViews_loop vk d i s tr)) evs"
proof (induction "length (m_swapChainImages s) - i" arbitrary: i s tr)
  case 0
  then have "CreateImageViews_loop vk d i s tr = (Inr s, tr)"
    by (subst CreateImageViews_loop_unfold) simp
  then have "snd (CreateImageViews_loop vk d i s tr) = tr @ []
      \<and> (\<forall>e \<in> set []. is_view_creation e)
      \<and> failures_end_operation checked_result (fst (CreateImageViews_loop vk d i s tr)) []"
    by (simp add: failures_end_operation_Nil)
  then show ?case by (rule exI)
next
  case (Suc n)
  then have lt: "i < length (m_swapChainImages s)" by simp
  let ?a = "view_answer vk d i s tr"
  let ?e = "view_event vk d i s tr"
  let ?s = "s\<lparr>m_swapChainImageViews := (m_swapChainImageViews s)[i := snd ?a]\<rparr>"
  show ?case
  proof (cases "fst ?a = VK_SUCCESS")
    case False
    with lt have u: "CreateImageViews_loop vk d i s tr = (Inl (VulkanError (fst ?a)), tr @ [?e])"
      by (subst CreateImageViews_loop_unfold) simp
    have "snd (CreateImageViews_loop vk d i s tr) = tr @ [?e]
      \<and> (\<forall>e \<in> set [?e]. is_view_creation e)
      \<and> failures_end_operation checked_result (fst (CreateImageViews_loop vk d i s tr)) [?e]"
      by (simp add: u failures_end_operation_Cons failures_end_operation_Nil)
    then show ?thesis by (rule exI)
  next
    case True
    with lt have u: "CreateImageViews_loop vk d i s tr = CreateImageViews_loop vk d (Suc i) ?s (tr @ [?e])"
      by (subst CreateImageViews_loop_unfold) simp
    have "n = length (m_swapChainImages ?s) - Suc i" using Suc(2) by simp
    from Suc(1) [OF this, of "tr @ [?e]"]
    obtain evs where evs: "snd (CreateImageViews_loop vk d (Suc i) ?s (tr @ [?e])) = (tr @ [?e]) @ evs"
        "\<forall>e \<in> set evs. is_view_creation e"
        "failures_end_operation checked_result (fst (CreateImageViews_loop vk d (Suc i) ?s (tr @ [?e]))) evs"
      by (elim exE conjE)
    have "snd (CreateImageViews_loop vk d i s tr) = tr @ (?e # evs)
      \<and> (\<forall>e \<in> set (?e # evs). is_view_creation e)
      \<and> failures_end_operation checked_result (fst (CreateImageViews_loop vk d i s tr)) (?e # evs)"
      using evs True by (simp add: u failures_end_operation_Cons)
    then show ?thesis by (rule exI)
  qed
qed



lemma CreateFramebuffers_loop_unfold:
  "CreateFramebuffers_loop vk d rp i s tr =
     (if i < length (m_swapChainImageViews s)
      then (if fst (framebuffer_answer vk d rp i s tr) = VK_SUCCESS
            then CreateFramebuffers_loop vk d rp (Suc i)
                   (s\<lparr>m_swapChainFramebuffers :=
                        (m_swapChainFramebuffers s)[i := snd (framebuffer_answer vk d rp i s tr)]\<rparr>)
                   (tr @ [framebuffer_event vk d rp i s tr])
            else (Inl (VulkanError (fst (framebuffer_answer vk d rp i s tr))),
                  tr @ [framebuffer_event vk d rp i s tr]))
      else (Inr s, tr))"
  by (subst CreateFramebuffers_loop.simps)
     (simp add: Let_def ErrorCheck_def framebuffer_answer_def framebuffer_event_def)

lemma checked_result_framebuffer_event [simp]:
  "checked_result (framebuffer_event vk d rp i s tr) = Some (fst (framebuffer_answer vk d rp i s tr))"
  "is_framebuffer_creation (framebuffer_event vk d rp i s tr)"
  by (simp_all add: framebuffer_event_def)

lemma CreateFramebuffers_loop_calls:
  "\<exists>evs. snd (CreateFramebuffers_loop vk d rp i s tr) = tr @ evs
      \<and> (\<forall>e \<in> set evs. is_framebuffer_creation e)
      \<and> failures_end_operation checked_result (fst (CreateFramebuffers_loop vk d rp i s tr)) evs"
proof (induction "length (m_swapChainImageViews s) - i" arbitrary: i s tr)
  case 0
  then have "CreateFramebuffers_loop vk d rp i s tr = (Inr s, tr)"
    by (subst CreateFramebuffers_loop_unfold) simp
  then have "snd (CreateFramebuffers_loop vk d rp i s tr) = tr @ []
      \<and> (\<forall>e \<in> set []. is_framebuffer_creation e)
      \<and> failures_end_operation checked_result (fst (CreateFramebuffers_loop vk d rp i s tr)) []"
    by (simp add: failures_end_operation_Nil)
  then show ?case by (rule exI)
next
  case (Suc n)
  then have lt: "i < length (m_swapChainImageViews s)" by simp
  let ?a = "framebuffer_answer vk d rp i s tr"
  let ?e = "framebuffer_event vk d rp i s tr"
  let ?s = "s\<lparr>m_swapChainFramebuffers := (m_swapChainFramebuffers s)[i := snd ?a]\<rparr>"
  show ?case
  proof (cases "fst ?a = VK_SUCCESS")
    case False
    with lt have u: "CreateFramebuffers_loop vk d rp i s tr = (Inl (VulkanError (fst ?a)), tr @ [?e])"
      by (subst CreateFramebuffers_loop_unfold) simp
    have "snd (CreateFramebuffers_loop vk d rp i s tr) = tr @ [?e]
      \<and> (\<forall>e \<in> set [?e]. is_framebuffer_creation e)
      \<and> failures_end_operation checked_result (fst (CreateFramebuffers_loop vk d rp i s tr)) [?e]"
      by (simp add: u failures_end_operation_Cons failures_end_operation_Nil)
    then show ?thesis by (rule exI)
  next
    case True
    with lt have u: "CreateFramebuffers_loop vk d rp i s tr
                       = CreateFramebuffers_loop vk d rp (Suc i) ?s (tr @ [?e])"
      by (subst CreateFramebuffers_loop_unfold) simp
    have "n = length (m_swapChainImageViews ?s) - Suc i" using Suc(2) by simp
    from Suc(1) [OF this, of "tr @ [?e]"]
    obtain evs where evs: "snd (CreateFramebuffers_loop vk d rp (Suc i) ?s (tr @ [?e])) = (tr @ [?e]) @ evs"
        "\<forall>e \<in> set evs. is_framebuffer_creation e"
        "failures_end_operation checked_result
           (fst (CreateFramebuffers_loop vk d rp (Suc i) ?s (tr @ [?e]))) evs"
      by (elim exE conjE)
    have "snd (CreateFramebuffers_loop vk d rp i s tr) = tr @ (?e # evs)
      \<and> (\<forall>e \<in> set (?e # evs). is_framebuffer_creation e)
      \<and> failures_end_operation checked_result (fst (CreateFramebuffers_loop vk d rp i s tr)) (?e # evs)"
      using evs True by (simp add: u failures_end_operation_Cons)
    then show ?thesis by (rule exI)
  qed
qed



lemma length_resize [simp]: "length (resize n dflt v) = n"
  by (simp add: resize_def)

lemma length_write_data [simp]: "length (write_data written v) = length v"
  by (simp add: write_data_def)

lemma extension_of_trace:
  "take (length tr) tr' = tr \<Longrightarrow> P (drop (length tr) tr') \<Longrightarrow> \<exists>evs. tr' = tr @ evs \<and> P evs"
proof -
  assume a: "take (length tr) tr' = tr" and p: "P (drop (length tr) tr')"
  have "take (length tr) tr' @ drop (length tr) tr' = tr'" by (rule append_take_drop_id)
  with a have "tr' = tr @ drop (length tr) tr'" by simp
  with p have "tr' = tr @ drop (length tr) tr' \<and> P (drop (length tr) tr')" by (intro conjI)
  then show ?thesis by (rule exI)
qed

lemma QuerySwapChainSupport_calls:
  "\<exists>evs. snd (QuerySwapChainSupport vk p sf tr) = tr @ evs \<and> (\<forall>e \<in> set evs. is_support_query e)"
  by (rule extension_of_trace) (simp_all add: QuerySwapChainSupport_def Let_def split_beta)

lemma ChooseSwapExtent_calls:
  "\<exists>evs. snd (ChooseSwapExtent vk caps w tr) = tr @ evs \<and> (\<forall>e \<in> set evs. is_support_query e)"
  by (rule extension_of_trace) (simp_all add: ChooseSwapExtent_def Let_def split_beta)

lemma CreateImageViews_calls:
  "\<exists>evs. snd (CreateImageViews vk d s tr) = tr @ evs
      \<and> (\<forall>e \<in> set evs. is_view_creation e)
      \<and> failures_end_operation checked_result (fst (CreateImageViews vk d s tr)) evs"
  unfolding CreateImageViews_def by (rule CreateImageViews_loop_calls)

lemma CreateFramebuffers_calls:
  "\<exists>evs. snd (CreateFramebuffers vk d rp s tr) = tr @ evs
      \<and> (\<forall>e \<in> set evs. is_framebuffer_creation e)
      \<and> failures_end_operation checked_result (fst (CreateFramebuffers vk d rp s tr)) evs"
  unfolding CreateFramebuffers_def by (rule CreateFramebuffers_loop_calls)



section \<open>The paths through Create\<close>

lemma ChooseSwapSurfaceFormat_error:
  "ChooseSwapSurfaceFormat fs = Inl e \<Longrightarrow> fs = [] \<and> e = IndexOutOfRange"
  by (cases fs) (auto simp: ChooseSwapSurfaceFormat_def split: if_splits option.splits)

lemma Create_cases:
  obtains
    (no_format) pre where
      "\<forall>e \<in> set pre. is_support_query e"
      "formats (fst (QuerySwapChainSupport vk p sf tr)) = []"
      "Create vk d p sf w s tr = (Inl IndexOutOfRange, tr @ pre)"
  | (chain_failed) pre ci r chain where
      "\<forall>e \<in> set pre. is_support_query e"
      "r \<noteq> VK_SUCCESS"
      "vkCreateSwapchainKHR vk (tr @ pre) d ci = (r, chain)"
      "Create vk d p sf w s tr = (Inl (VulkanError r), tr @ pre @ [EvCreateSwapchain d ci r chain])"
  | (chain_created) pre ci chain r1 n r2 n2 written s3 where
      "\<forall>e \<in> set pre. is_support_query e"
      "vkCreateSwapchainKHR vk (tr @ pre) d ci = (VK_SUCCESS, chain)"
      "sci_surface ci = sf"
      "sci_minImageCount ci = Create_imageCount (capabilities (fst (QuerySwapChainSupport vk p sf tr)))"
      "fst (snd (vkGetSwapchainImagesKHR vk (tr @ pre @ [EvCreateSwapchain d ci VK_SUCCESS chain]) d chain None)) = n"
      "length (m_swapChainImages s3) = unat n"
      "m_swapChainFramebuffers s3 = m_swapChainFramebuffers s"
      "Create vk d p sf w s tr =
         CreateImageViews vk d s3
           (tr @ pre @ [EvCreateSwapchain d ci VK_SUCCESS chain,
                        EvGetSwapchainImages d chain None r1 n [],
                        EvGetSwapchainImages d chain (Some n) r2 n2 written])"
proof -
  define q where "q = QuerySwapChainSupport vk p sf tr"
  from QuerySwapChainSupport_calls [of vk p sf tr]
  obtain qs where qs: "snd q = tr @ qs" "\<forall>e \<in> set qs. is_support_query e"
    unfolding q_def by (elim exE conjE)
  show thesis
  proof (cases "ChooseSwapSurfaceFormat (formats (fst q))")
    case (Inl e)
    from ChooseSwapSurfaceFormat_error [OF Inl]
    have e: "formats (fst q) = []" "e = IndexOutOfRange" by simp_all
    have "Create vk d p sf w s tr = (Inl e, snd q)"
      using Inl by (simp add: Create_def Let_def split_beta q_def)
    then have c: "Create vk d p sf w s tr = (Inl IndexOutOfRange, tr @ qs)"
      by (simp only: e(2) qs(1))
    from e(1) have f: "formats (fst (QuerySwapChainSupport vk p sf tr)) = []"
      by (simp only: q_def)
    show thesis by (rule no_format [OF qs(2) f c])
  next
    case (Inr f)
    define ex where "ex = ChooseSwapExtent vk (capabilities (fst q)) w (snd q)"
    from ChooseSwapExtent_calls [of vk "capabilities (fst q)" w "snd q"]
    obtain es where es: "snd ex = snd q @ es" "\<forall>e \<in> set es. is_support_query e"
      unfolding ex_def by (elim exE conjE)
    define pre where "pre = qs @ es"
    have pre: "\<forall>e \<in> set pre. is_support_query e"
      using qs(2) es(2) by (auto simp: pre_def)
    have trex: "snd ex = tr @ pre"
      by (simp add: es(1) qs(1) pre_def)
    define ci where "ci = swapchainCreateInfo sf (Create_imageCount (capabilities (fst q))) f (fst ex)
                            (currentTransform (capabilities (fst q)))
                            (ChooseSwapPresentMode (presentModes (fst q)))"
    have ci_sf: "sci_surface ci = sf"
      by (simp add: ci_def swapchainCreateInfo_def)
    have ci_n: "sci_minImageCount ci = Create_imageCount (capabilities (fst (QuerySwapChainSupport vk p sf tr)))"
      by (simp add: ci_def swapchainCreateInfo_def q_def)
    define ans where "ans = vkCreateSwapchainKHR vk (snd ex) d ci"
    have ans: "vkCreateSwapchainKHR vk (tr @ pre) d ci = (fst ans, snd ans)"
      by (simp add: ans_def trex)
    show thesis
    proof (cases "fst ans = VK_SUCCESS")
      case False
      have "Create vk d p sf w s tr
              = (Inl (VulkanError (fst ans)), snd ex @ [EvCreateSwapchain d ci (fst ans) (snd ans)])"
        using Inr False
        by (simp add: Create_def Let_def split_beta q_def ex_def ci_def ans_def ErrorCheck_def)
      then have c: "Create vk d p sf w s tr
              = (Inl (VulkanError (fst ans)), tr @ pre @ [EvCreateSwapchain d ci (fst ans) (snd ans)])"
        by (simp add: trex)
      show thesis by (rule chain_failed [OF pre False ans c])
    next
      case True
      define tr3 where "tr3 = snd ex @ [EvCreateSwapchain d ci (fst ans) (snd ans)]"
      define a1 where "a1 = vkGetSwapchainImagesKHR vk tr3 d (snd ans) None"
      define tr4 where "tr4 = tr3 @ [EvGetSwapchainImages d (snd ans) None (fst a1) (fst (snd a1)) []]"
      define a2 where "a2 = vkGetSwapchainImagesKHR vk tr4 d (snd ans) (Some (fst (snd a1)))"
      define tr5 where "tr5 = tr4 @ [EvGetSwapchainImages d (snd ans) (Some (fst (snd a1))) (fst a2)
                                       (fst (snd a2)) (snd (snd a2))]"
      define s3 where "s3 = s\<lparr>m_logicalDevice := d, m_swapChain := snd ans,
                               m_swapChainImages := write_data (snd (snd a2))
                                  (resize (unat (fst (snd a1))) VK_NULL_HANDLE (m_swapChainImages s)),
                               m_swapChainImageFormat := format f,
                               m_swapChainExtent := fst ex\<rparr>"
      have "Create vk d p sf w s tr = CreateImageViews vk d s3 tr5"
        using Inr True
        by (simp add: Create_def Let_def split_beta q_def ex_def ci_def ans_def ErrorCheck_def
              tr3_def a1_def tr4_def a2_def tr5_def s3_def)
      moreover have "tr5 = tr @ pre @ [EvCreateSwapchain d ci VK_SUCCESS (snd ans),
                        EvGetSwapchainImages d (snd ans) None (fst a1) (fst (snd a1)) [],
                        EvGetSwapchainImages d (snd ans) (Some (fst (snd a1))) (fst a2) (fst (snd a2))
                          (snd (snd a2))]"
        by (simp add: tr5_def tr4_def tr3_def trex True)
      ultimately have c: "Create vk d p sf w s tr =
         CreateImageViews vk d s3
           (tr @ pre @ [EvCreateSwapchain d ci VK_SUCCESS (snd ans),
                        EvGetSwapchainImages d (snd ans) None (fst a1) (fst (snd a1)) [],
                        EvGetSwapchainImages d (snd ans) (Some (fst (snd a1))) (fst a2) (fst (snd a2))
                          (snd (snd a2))])"
        by simp
      have ans': "vkCreateSwapchainKHR vk (tr @ pre) d ci = (VK_SUCCESS, snd ans)"
        using ans True by simp
      have n: "fst (snd (vkGetSwapchainImagesKHR vk (tr @ pre @ [EvCreateSwapchain d ci VK_SUCCESS (snd ans)])
                       d (snd ans) None)) = fst (snd a1)"
        by (simp add: a1_def tr3_def trex True)
      have l: "length (m_swapChainImages s3) = unat (fst (snd a1))"
        by (simp add: s3_def)
      have fb: "m_swapChainFramebuffers s3 = m_swapChainFramebuffers s"
        by (simp add: s3_def)
      show thesis by (rule chain_created [OF pre ans' ci_sf ci_n n l fb c])
    qed
  qed
qed




lemma checked_result_support_query:
  "is_support_query e \<Longrightarrow> checked_result e = None"
  by (cases e) simp_all




section \<open>Operations on a platform that does not fail\<close>



lemma QuerySwapChainSupport_formats_length:
  "length (formats (fst (QuerySwapChainSupport vk p sf tr))) = unat (formats_probe_count vk p sf tr)"
  by (simp add: QuerySwapChainSupport_def formats_probe_count_def Let_def split_beta)


















lemma not_isl_Inr: "\<not> isl x \<Longrightarrow> x = Inr (projr x)"
  by (cases x) simp_all



section \<open>The result codes that are checked\<close>

text \<open>
  C8, as stated, says that no platform call of the component can answer a non-success
  code without the operation ending there. On a platform where the five queries of
  \<^verbatim>\<open>QuerySwapChainSupport\<close>, the two calls that fetch the images of the chain and the
  wait for the device all answer \<^verbatim>\<open>VK_ERROR_DEVICE_LOST\<close>, \<^verbatim>\<open>Create\<close> returns
  normally, and \<^verbatim>\<open>Cleanup\<close> and \<^verbatim>\<open>CleanupFrameBuffers\<close> go on to destroy after the
  failed wait.
\<close>

theorem unchecked_results_counterexample:
  "\<not> isl (fst (Create lost_device_platform 7 8 9 10 Swapchain_new []))
   \<and> map result_code (snd (Create lost_device_platform 7 8 9 10 Swapchain_new []))
       = [Some VK_ERROR_DEVICE_LOST, Some VK_ERROR_DEVICE_LOST, Some VK_ERROR_DEVICE_LOST,
          Some VK_ERROR_DEVICE_LOST, Some VK_ERROR_DEVICE_LOST, None, Some VK_SUCCESS,
          Some VK_ERROR_DEVICE_LOST, Some VK_ERROR_DEVICE_LOST]
   \<and> \<not> failures_end_operation result_code
         (fst (Create lost_device_platform 7 8 9 10 Swapchain_new []))
         (snd (Create lost_device_platform 7 8 9 10 Swapchain_new []))
   \<and> map result_code (snd (Cleanup lost_device_platform sample_swapchain []))
       = [Some VK_ERROR_DEVICE_LOST, None, None, None]
   \<and> \<not> failures_end_operation result_code
         (Inr (fst (Cleanup lost_device_platform sample_swapchain [])) :: error + Swapchain)
         (snd (Cleanup lost_device_platform sample_swapchain []))
   \<and> map result_code (snd (CleanupFrameBuffers lost_device_platform sample_swapchain []))
       = [Some VK_ERROR_DEVICE_LOST, None, None]
   \<and> \<not> failures_end_operation result_code
         (Inr (fst (CleanupFrameBuffers lost_device_platform sample_swapchain [])) :: error + Swapchain)
         (snd (CleanupFrameBuffers lost_device_platform sample_swapchain []))"
proof -
  have a: "\<not> isl (fst (Create lost_device_platform 7 8 9 10 Swapchain_new []))"
    by code_simp
  have b: "map result_code (snd (Create lost_device_platform 7 8 9 10 Swapchain_new []))
       = [Some VK_ERROR_DEVICE_LOST, Some VK_ERROR_DEVICE_LOST, Some VK_ERROR_DEVICE_LOST,
          Some VK_ERROR_DEVICE_LOST, Some VK_ERROR_DEVICE_LOST, None, Some VK_SUCCESS,
          Some VK_ERROR_DEVICE_LOST, Some VK_ERROR_DEVICE_LOST]"
    by code_simp
  have c: "\<not> failures_end_operation result_code
         (fst (Create lost_device_platform 7 8 9 10 Swapchain_new []))
         (snd (Create lost_device_platform 7 8 9 10 Swapchain_new []))"
    by code_simp
  have d: "map result_code (snd (Cleanup lost_device_platform sample_swapchain []))
       = [Some VK_ERROR_DEVICE_LOST, None, None, None]"
    by code_simp
  have e: "\<not> failures_end_operation result_code
         (Inr (fst (Cleanup lost_device_platform sample_swapchain [])) :: error + Swapchain)
         (snd (Cleanup lost_device_platform sample_swapchain []))"
    by code_simp
  have f: "map result_code (snd (CleanupFrameBuffers lost_device_platform sample_swapchain []))
       = [Some VK_ERROR_DEVICE_LOST, None, None]"
    by code_simp
  have g: "\<not> failures_end_operation result_code
         (Inr (fst (CleanupFrameBuffers lost_device_platform sample_swapchain [])) :: error + Swapchain)
         (snd (CleanupFrameBuffers lost_device_platform sample_swapchain []))"
    by code_simp
  from a b c d e f g show ?thesis by (intro conjI)
qed

lemma Create_checked:
  "failures_end_operation checked_result (fst (Create vk d p sf w s tr))
     (drop (length tr) (snd (Create vk d p sf w s tr)))"
proof (cases rule: Create_cases [of vk p sf tr d w s])
  case (no_format pre)
  have "failures_end_operation checked_result (Inl IndexOutOfRange :: error + Swapchain) (pre @ [])"
    using no_format(1)
    by (subst failures_end_operation_quiet_prefix)
       (simp_all add: checked_result_support_query failures_end_operation_Nil)
  then show ?thesis by (simp add: no_format(3))
next
  case (chain_failed pre ci r chain)
  have "failures_end_operation checked_result (Inl (VulkanError r) :: error + Swapchain)
          (pre @ [EvCreateSwapchain d ci r chain])"
    using chain_failed(1)
    by (subst failures_end_operation_quiet_prefix)
       (simp_all add: checked_result_support_query failures_end_operation_Cons failures_end_operation_Nil)
  then show ?thesis by (simp add: chain_failed(4))
next
  case (chain_created pre ci chain r1 n r2 n2 written s3)
  let ?c = "[EvCreateSwapchain d ci VK_SUCCESS chain,
             EvGetSwapchainImages d chain None r1 n [],
             EvGetSwapchainImages d chain (Some n) r2 n2 written]"
  let ?T = "tr @ pre @ ?c"
  from CreateImageViews_calls [of vk d s3 ?T]
  obtain evs where evs: "snd (CreateImageViews vk d s3 ?T) = ?T @ evs"
      "failures_end_operation checked_result (fst (CreateImageViews vk d s3 ?T)) evs"
    by (elim exE conjE)
  have q: "\<forall>e \<in> set (pre @ ?c). checked_result e = None \<or> checked_result e = Some VK_SUCCESS"
    using chain_created(1) by (auto simp: checked_result_support_query)
  have "failures_end_operation checked_result (fst (CreateImageViews vk d s3 ?T)) ((pre @ ?c) @ evs)"
    using evs(2) by (simp only: failures_end_operation_quiet_prefix [OF q])
  then show ?thesis by (simp add: chain_created(8) evs(1))
qed

text \<open>
  C8, amended: the result codes of the three creation calls, \<^verbatim>\<open>vkCreateSwapchainKHR\<close>
  in \<^verbatim>\<open>Create\<close>, \<^verbatim>\<open>vkCreateImageView\<close> in \<^verbatim>\<open>CreateImageViews\<close> (also when run by
  \<^verbatim>\<open>Create\<close>) and \<^verbatim>\<open>vkCreateFramebuffer\<close> in \<^verbatim>\<open>CreateFramebuffers\<close>, go through
  the error check: a creation call that answers a non-success code is the last call the
  operation makes, and the operation ends with that code as its error.
\<close>

theorem creation_failures_end_operation:
  "failures_end_operation checked_result (fst (Create vk d p sf w s tr))
     (drop (length tr) (snd (Create vk d p sf w s tr)))
   \<and> failures_end_operation checked_result (fst (CreateImageViews vk d s tr))
     (drop (length tr) (snd (CreateImageViews vk d s tr)))
   \<and> failures_end_operation checked_result (fst (CreateFramebuffers vk d rp s tr))
     (drop (length tr) (snd (CreateFramebuffers vk d rp s tr)))"
proof -
  have v: "failures_end_operation checked_result (fst (CreateImageViews vk d s tr))
     (drop (length tr) (snd (CreateImageViews vk d s tr)))"
    using CreateImageViews_calls [of vk d s tr] by (elim exE conjE) simp
  have f: "failures_end_operation checked_result (fst (CreateFramebuffers vk d rp s tr))
     (drop (length tr) (snd (CreateFramebuffers vk d rp s tr)))"
    using CreateFramebuffers_calls [of vk d rp s tr] by (elim exE conjE) simp
  from Create_checked v f show ?thesis by (intro conjI)
qed

theorem creation_failures_end_operation_witness:
  "fst (Create refusing_platform 7 8 9 10 Swapchain_new []) = Inl (VulkanError VK_ERROR_DEVICE_LOST)
   \<and> snd (Create refusing_platform 7 8 9 10 Swapchain_new []) \<noteq> []
   \<and> checked_result (last (snd (Create refusing_platform 7 8 9 10 Swapchain_new [])))
        = Some VK_ERROR_DEVICE_LOST
   \<and> VK_ERROR_DEVICE_LOST \<noteq> VK_SUCCESS
   \<and> failures_end_operation checked_result (fst (Create refusing_platform 7 8 9 10 Swapchain_new []))
        (snd (Create refusing_platform 7 8 9 10 Swapchain_new []))"
proof -
  have ne: "VK_ERROR_DEVICE_LOST \<noteq> VK_SUCCESS"
    by (simp add: VK_ERROR_DEVICE_LOST_def VK_SUCCESS_def)
  have r: "fst (Create refusing_platform 7 8 9 10 Swapchain_new []) = Inl (VulkanError VK_ERROR_DEVICE_LOST)
   \<and> snd (Create refusing_platform 7 8 9 10 Swapchain_new []) \<noteq> []
   \<and> checked_result (last (snd (Create refusing_platform 7 8 9 10 Swapchain_new [])))
        = Some VK_ERROR_DEVICE_LOST"
  proof (cases rule: Create_cases [of refusing_platform 8 9 "[]" 7 10 Swapchain_new])
    case (no_format pre)
    have "formats_probe_count refusing_platform 8 9 [] = 1"
      by (simp add: formats_probe_count_def refusing_platform_def sample_platform_def)
    with QuerySwapChainSupport_formats_length [of refusing_platform 8 9 "[]"] no_format(2)
    show ?thesis by simp
  next
    case (chain_failed pre ci r chain)
    from chain_failed(3) have "r = VK_ERROR_DEVICE_LOST" by (simp add: refusing_platform_def)
    then show ?thesis by (simp add: chain_failed(4))
  next
    case (chain_created pre ci chain r1 n r2 n2 written s3)
    from chain_created(2) ne show ?thesis by (simp add: refusing_platform_def)
  qed
  from creation_failures_end_operation [of refusing_platform 7 8 9 10 Swapchain_new "[]"]
  have "failures_end_operation checked_result (fst (Create refusing_platform 7 8 9 10 Swapchain_new []))
        (snd (Create refusing_platform 7 8 9 10 Swapchain_new []))"
    by simp
  with r ne show ?thesis by (intro conjI) blast+
qed

section \<open>Index alignment\<close>






end
